theory Spec2Isabelle
  imports Complex_Main "HOL-Library.Sublist"
begin

section \<open>Python values shared by the tool layer\<close>

text \<open>
  A \<^verbatim>\<open>datetime\<close> is a number of microseconds since \<^verbatim>\<open>datetime.min\<close>, so
  \<^verbatim>\<open>datetime.min\<close> is 0 and a \<^verbatim>\<open>timedelta\<close> is an integer number of
  microseconds. Python floats are idealised as real numbers; NaN, where the code can
  produce it, is written out as \<open>None\<close>.
\<close>

type_synonym datetime = nat

text \<open>The values the tools store in the metadata dictionary of an envelope.\<close>

datatype meta_value = MNone | MStr string | MInt int | MBool bool | MTime datetime

text \<open>\<^verbatim>\<open>int(x)\<close> on a float truncates towards zero.\<close>

definition py_int_of_float :: "real \<Rightarrow> int" where
  "py_int_of_float x = (if 0 \<le> x then \<lfloor>x\<rfloor> else \<lceil>x\<rceil>)"

section \<open>models/responses.py: the response envelope\<close>

datatype ToolStatus = SUCCESS | PARTIAL | ERROR

text \<open>
  The class body of \<^verbatim>\<open>ToolResponse\<close> binds the name \<^verbatim>\<open>error\<close> twice: first as
  the field \<^verbatim>\<open>error: str | None\<close>, then as the classmethod \<^verbatim>\<open>error\<close>. When
  the class is built the name holds the classmethod, which pydantic takes as the default
  of the field and removes from the class. So an envelope built without an
  \<^verbatim>\<open>error\<close> argument holds that classmethod object in the field
  (\<open>ClassmethodDefault\<close>), and the class has no attribute \<^verbatim>\<open>error\<close> to call.
\<close>

datatype error_value = ClassmethodDefault | NoError | Message string

record 'r ToolResponse =
  status :: ToolStatus
  result :: "'r option"
  error :: error_value
  warnings :: "string list"
  metadata :: "string \<rightharpoonup> meta_value"

text \<open>
  \<^verbatim>\<open>metadata or {}\<close> and \<^verbatim>\<open>warnings or []\<close>: an absent argument and an empty
  one both give the empty container.
\<close>

definition or_empty_dict :: "(string \<rightharpoonup> meta_value) option \<Rightarrow> (string \<rightharpoonup> meta_value)" where
  "or_empty_dict m = (case m of None \<Rightarrow> Map.empty | Some d \<Rightarrow> d)"

definition or_empty_list :: "string list option \<Rightarrow> string list" where
  "or_empty_list w = (case w of None \<Rightarrow> [] | Some ws \<Rightarrow> ws)"

definition ToolResponse_success ::
  "'r option \<Rightarrow> (string \<rightharpoonup> meta_value) option \<Rightarrow> string list option \<Rightarrow> 'r ToolResponse" where
  "ToolResponse_success res meta warns =
     \<lparr>status = SUCCESS, result = res, error = ClassmethodDefault,
      warnings = or_empty_list warns, metadata = or_empty_dict meta\<rparr>"

definition ToolResponse_partial ::
  "'r option \<Rightarrow> string list \<Rightarrow> (string \<rightharpoonup> meta_value) option \<Rightarrow> 'r ToolResponse" where
  "ToolResponse_partial res warns meta =
     \<lparr>status = PARTIAL, result = res, error = ClassmethodDefault,
      warnings = warns, metadata = or_empty_dict meta\<rparr>"

text \<open>
  The exception classes the tools meet. \<open>OtherException name\<close> is any other subclass
  of \<^verbatim>\<open>Exception\<close>, with the name \<^verbatim>\<open>type(e).__name__\<close> gives
  (\<^verbatim>\<open>ValueError\<close>, \<^verbatim>\<open>AttributeError\<close>, ...). An exception value carries its
  class and the text \<^verbatim>\<open>str(e)\<close>.
\<close>

datatype exc_class =
    K8sNotFoundError
  | K8sClientError
  | PrometheusQueryError
  | PrometheusClientError
  | OtherException string

datatype exn = Exn exc_class string

text \<open>
  The body of the classmethod \<^verbatim>\<open>error\<close>: the envelope it would build.
  \<^verbatim>\<open>if error_type:\<close> is false for \<^verbatim>\<open>None\<close> and for the empty string.
\<close>

definition error_classmethod_body ::
  "string \<Rightarrow> string option \<Rightarrow> (string \<rightharpoonup> meta_value) option \<Rightarrow> 'r ToolResponse" where
  "error_classmethod_body error_message error_type meta =
     \<lparr>status = ERROR, result = None, error = Message error_message, warnings = [],
      metadata =
        (case error_type of
           None \<Rightarrow> or_empty_dict meta
         | Some t \<Rightarrow> if t = [] then or_empty_dict meta
                     else (or_empty_dict meta)(''error_type'' \<mapsto> MStr t))\<rparr>"

text \<open>
  The call \<^verbatim>\<open>ToolResponse.error(...)\<close>: the attribute lookup on the class fails
  before any argument is used, with \<^verbatim>\<open>AttributeError: error\<close>; the body above is
  never reached.
\<close>

definition ToolResponse_error ::
  "string \<Rightarrow> string option \<Rightarrow> (string \<rightharpoonup> meta_value) option \<Rightarrow> exn + 'r ToolResponse" where
  "ToolResponse_error error_message error_type meta =
     Inl (Exn (OtherException ''AttributeError'') ''error'')"

text \<open>
  \<^verbatim>\<open>add_execution_metadata(metadata, start_time, **extra)\<close>; \<open>end_time\<close> is the clock
  reading \<^verbatim>\<open>datetime.now()\<close> the function takes. The milliseconds are computed on
  the exact difference (the float product of the code can fall one short).
\<close>

definition add_execution_metadata ::
  "(string \<rightharpoonup> meta_value) \<Rightarrow> datetime \<Rightarrow> datetime \<Rightarrow> (string \<rightharpoonup> meta_value)
     \<Rightarrow> (string \<rightharpoonup> meta_value)" where
  "add_execution_metadata meta start_time end_time extra =
     (meta(''execution_time_ms'' \<mapsto>
             MInt (py_int_of_float ((real_of_int (int end_time - int start_time) / 1000000) * 1000)),
           ''timestamp'' \<mapsto> MTime end_time)) ++ extra"




section \<open>clients: the exceptions of the two collaborators\<close>

fun exn_class :: "exn \<Rightarrow> exc_class" where
  "exn_class (Exn c m) = c"

fun str_of_exn :: "exn \<Rightarrow> string" where
  "str_of_exn (Exn c m) = m"

fun type_name :: "exc_class \<Rightarrow> string" where
  "type_name K8sNotFoundError = ''K8sNotFoundError''"
| "type_name K8sClientError = ''K8sClientError''"
| "type_name PrometheusQueryError = ''PrometheusQueryError''"
| "type_name PrometheusClientError = ''PrometheusClientError''"
| "type_name (OtherException n) = n"

text \<open>
  \<^verbatim>\<open>class K8sNotFoundError(K8sClientError)\<close> and
  \<^verbatim>\<open>class PrometheusQueryError(PrometheusClientError)\<close>: an \<^verbatim>\<open>except\<close> clause
  for the base class also matches the subclass.
\<close>

fun subclass_of :: "exc_class \<Rightarrow> exc_class \<Rightarrow> bool" where
  "subclass_of K8sNotFoundError K8sClientError = True"
| "subclass_of PrometheusQueryError PrometheusClientError = True"
| "subclass_of c k = (c = k)"

definition isinstance :: "exn \<Rightarrow> exc_class \<Rightarrow> bool" where
  "isinstance e k = subclass_of (exn_class e) k"

section \<open>tools/base.py: the tool handler\<close>

text \<open>
  \<open>tool_handler start_time end_time outcome\<close> is the wrapper applied to a call of the
  wrapped function whose body either raised (\<open>Inl e\<close>) or returned an envelope
  (\<open>Inr r\<close>). Its own outcome is the envelope it returns or the exception that
  leaves it. The \<^verbatim>\<open>except\<close> clauses are tried in the order of the source; each
  calls \<^verbatim>\<open>ToolResponse.error\<close>, and what that call raises is raised inside the
  handler of the \<^verbatim>\<open>try\<close> statement, so no later clause catches it.
\<close>

definition tool_handler ::
  "datetime \<Rightarrow> datetime \<Rightarrow> exn + 'r ToolResponse \<Rightarrow> exn + 'r ToolResponse" where
  "tool_handler start_time end_time outcome =
     (case outcome of
        Inr r \<Rightarrow>
          Inr (if metadata r ''execution_time_ms'' = None
               then r\<lparr>metadata :=
                        add_execution_metadata (metadata r) start_time end_time Map.empty\<rparr>
               else r)
      | Inl e \<Rightarrow>
          if isinstance e K8sNotFoundError then
            ToolResponse_error (str_of_exn e) (Some ''NotFoundError'')
              (Some (add_execution_metadata Map.empty start_time end_time Map.empty))
          else if isinstance e K8sClientError then
            ToolResponse_error (str_of_exn e) (Some ''KubernetesError'')
              (Some (add_execution_metadata Map.empty start_time end_time Map.empty))
          else if isinstance e PrometheusQueryError then
            ToolResponse_error (str_of_exn e) (Some ''PrometheusQueryError'')
              (Some (add_execution_metadata Map.empty start_time end_time Map.empty))
          else if isinstance e PrometheusClientError then
            ToolResponse_error (str_of_exn e) (Some ''PrometheusError'')
              (Some (add_execution_metadata Map.empty start_time end_time Map.empty))
          else
            ToolResponse_error (''Unexpected error: '' @ str_of_exn e)
              (Some (type_name (exn_class e)))
              (Some (add_execution_metadata Map.empty start_time end_time Map.empty)))"

text \<open>The result payload of an outcome, if an envelope with a payload was returned.\<close>

definition returned_result :: "exn + 'r ToolResponse \<Rightarrow> 'r option" where
  "returned_result outcome = (case outcome of Inl e \<Rightarrow> None | Inr r \<Rightarrow> result r)"

section \<open>Python strings and numbers used by the tools\<close>

text \<open>
  \<^verbatim>\<open>str.strip()\<close> and \<^verbatim>\<open>str.lower()\<close> on ASCII text (a \<open>char\<close> is a byte, so
  whitespace and letters beyond ASCII are outside the model).
\<close>

definition py_isspace :: "char \<Rightarrow> bool" where
  "py_isspace c = (c = CHR '' '' \<or> (9 \<le> (of_char c :: nat) \<and> (of_char c :: nat) \<le> 13)
                   \<or> (28 \<le> (of_char c :: nat) \<and> (of_char c :: nat) \<le> 31))"

definition py_strip :: "string \<Rightarrow> string" where
  "py_strip s = rev (dropWhile py_isspace (rev (dropWhile py_isspace s)))"

definition py_lower_char :: "char \<Rightarrow> char" where
  "py_lower_char c =
     (if 65 \<le> (of_char c :: nat) \<and> (of_char c :: nat) \<le> 90
      then char_of ((of_char c :: nat) + 32) else c)"

definition py_lower :: "string \<Rightarrow> string" where
  "py_lower s = map py_lower_char s"

definition is_digit :: "char \<Rightarrow> bool" where
  "is_digit c = (48 \<le> (of_char c :: nat) \<and> (of_char c :: nat) \<le> 57)"

definition digit_val :: "char \<Rightarrow> int" where
  "digit_val c = int (of_char c) - 48"

fun no_double_underscore :: "string \<Rightarrow> bool" where
  "no_double_underscore (a # b # cs) =
     ((a \<noteq> CHR ''_'' \<or> b \<noteq> CHR ''_'') \<and> no_double_underscore (b # cs))"
| "no_double_underscore cs = True"

text \<open>
  \<^verbatim>\<open>int(s)\<close> on a string: surrounding whitespace, an optional sign, then decimal digits
  that single underscores may separate; anything else raises \<^verbatim>\<open>ValueError\<close>.
\<close>

definition valid_int_body :: "string \<Rightarrow> bool" where
  "valid_int_body b =
     (b \<noteq> [] \<and> is_digit (hd b) \<and> is_digit (last b)
      \<and> list_all (\<lambda>c. is_digit c \<or> c = CHR ''_'') b \<and> no_double_underscore b)"

definition decimal :: "string \<Rightarrow> int" where
  "decimal b = foldl (\<lambda>acc c. acc * 10 + digit_val c) 0 (filter is_digit b)"

definition py_int :: "string \<Rightarrow> exn + int" where
  "py_int s =
     (let t = py_strip s;
          neg = (t \<noteq> [] \<and> hd t = CHR ''-'');
          b = (if t \<noteq> [] \<and> (hd t = CHR ''-'' \<or> hd t = CHR ''+'') then tl t else t)
      in if valid_int_body b then Inr (if neg then - decimal b else decimal b)
         else Inl (Exn (OtherException ''ValueError'')
                     (''invalid literal for int() with base 10: '' @ s)))"

text \<open>\<^verbatim>\<open>s.endswith(c)\<close> for a one-character suffix.\<close>

definition endswith :: "string \<Rightarrow> char \<Rightarrow> bool" where
  "endswith s c = (s \<noteq> [] \<and> last s = c)"

text \<open>tools/base.py, \<^verbatim>\<open>parse_duration\<close>: seconds, or the \<^verbatim>\<open>ValueError\<close> raised.\<close>

definition parse_duration :: "string \<Rightarrow> exn + int" where
  "parse_duration duration0 =
     (let duration = py_lower (py_strip duration0) in
      if endswith duration CHR ''s'' then py_int (butlast duration)
      else if endswith duration CHR ''m'' then
        (case py_int (butlast duration) of Inl e \<Rightarrow> Inl e | Inr n \<Rightarrow> Inr (n * 60))
      else if endswith duration CHR ''h'' then
        (case py_int (butlast duration) of Inl e \<Rightarrow> Inl e | Inr n \<Rightarrow> Inr (n * 3600))
      else if endswith duration CHR ''d'' then
        (case py_int (butlast duration) of Inl e \<Rightarrow> Inl e | Inr n \<Rightarrow> Inr (n * 86400))
      else Inl (Exn (OtherException ''ValueError'')
                  (''Invalid duration format: '' @ duration
                   @ ''. Use 's', 'm', 'h', or 'd' suffix.'')))"

text \<open>
  \<^verbatim>\<open>now - timedelta(seconds=n)\<close>: a date outside \<^verbatim>\<open>datetime.min\<close> ..
  \<^verbatim>\<open>datetime.max\<close> raises \<^verbatim>\<open>OverflowError\<close>.
\<close>

definition datetime_max :: nat where
  "datetime_max = 315537897599999999"

definition minus_seconds :: "datetime \<Rightarrow> int \<Rightarrow> exn + datetime" where
  "minus_seconds now n =
     (let c = int now - n * 1000000 in
      if c < 0 \<or> int datetime_max < c
      then Inl (Exn (OtherException ''OverflowError'') ''date value out of range'')
      else Inr (nat c))"

text \<open>
  numpy on a list of floats. \<open>mean\<close>, \<open>variance\<close> and \<open>std\<close> (\<^verbatim>\<open>np.std\<close>, the
  population standard deviation) are the values on a non-empty list; \<open>np_mean\<close> also
  covers the empty list, where numpy returns NaN (\<open>None\<close>).
\<close>

definition mean :: "real list \<Rightarrow> real" where
  "mean xs = sum_list xs / real (length xs)"

definition np_mean :: "real list \<Rightarrow> real option" where
  "np_mean xs = (if xs = [] then None else Some (mean xs))"

definition variance :: "real list \<Rightarrow> real" where
  "variance xs = mean (map (\<lambda>x. (x - mean xs)\<^sup>2) xs)"

definition std :: "real list \<Rightarrow> real" where
  "std xs = sqrt (variance xs)"

text \<open>
  \<^verbatim>\<open>round(x, ndigits)\<close> and the formats \<^verbatim>\<open>.0f\<close>, \<^verbatim>\<open>.1f\<close>, \<^verbatim>\<open>.4f\<close>
  act on the double that stands for the real value, so at a tie of the real value they
  may go either way (\<^verbatim>\<open>round(0.125, 2)\<close> is 0.12, \<^verbatim>\<open>round(0.025, 2)\<close> is 0.03).
  The tools therefore take the rounding as a parameter \<open>rnd\<close>, of which the
  theorems assume only that \<open>rnd x n\<close> is a multiple of \<open>10\<^sup>-\<^sup>n\<close> nearest to \<open>x\<close>.
\<close>

definition rounds_to_nearest :: "(real \<Rightarrow> nat \<Rightarrow> real) \<Rightarrow> bool" where
  "rounds_to_nearest rnd =
     (\<forall>x n. (\<exists>k::int. rnd x n = of_int k / 10 ^ n) \<and> \<bar>rnd x n - x\<bar> \<le> 1 / (2 * 10 ^ n))"

text \<open>
  One such rounding, with ties to the even multiple. It is not \<^verbatim>\<open>round\<close> itself,
  from which it differs at the ties above; the examples below are evaluated with it.
\<close>

definition round_half_even :: "real \<Rightarrow> int" where
  "round_half_even x =
     (let f = \<lfloor>x\<rfloor>; d = x - of_int f in
      if d < 1/2 then f else if 1/2 < d then f + 1 else if even f then f else f + 1)"

definition nearest_even :: "real \<Rightarrow> nat \<Rightarrow> real" where
  "nearest_even x ndigits = of_int (round_half_even (x * 10 ^ ndigits)) / 10 ^ ndigits"

text \<open>Python slices \<^verbatim>\<open>xs[:n]\<close> and \<^verbatim>\<open>xs[n:]\<close>, where a negative \<open>n\<close> counts from the end.\<close>

definition slice_to :: "int \<Rightarrow> 'a list \<Rightarrow> 'a list" where
  "slice_to n xs = (if 0 \<le> n then take (nat n) xs else take (nat (int (length xs) + n)) xs)"

definition slice_from :: "int \<Rightarrow> 'a list \<Rightarrow> 'a list" where
  "slice_from n xs = (if 0 \<le> n then drop (nat n) xs else drop (nat (int (length xs) + n)) xs)"

section \<open>The cluster objects and the cluster client the tools read\<close>

text \<open>
  The fields of the Kubernetes objects that the tools read. \<open>last_terminated\<close> is
  \<^verbatim>\<open>status.last_state.terminated\<close> when both are set; \<open>restart_count\<close> is the API's
  restart counter, a natural number.
\<close>

record Terminated =
  term_reason :: "string option"
  finished_at :: "datetime option"

record ContainerStatus =
  cs_name :: string
  restart_count :: nat
  last_terminated :: "Terminated option"

record V1Pod =
  pod_name :: string
  pod_phase :: string
  container_statuses :: "ContainerStatus list option"
  spec_containers :: "string list"

text \<open>The settings the tools read (config.py).\<close>

record Settings =
  max_log_lines :: int
  max_events :: int
  max_timeseries_points :: int

text \<open>The clock readings of one wrapped call, in the order the code takes them.\<close>

record clock =
  wrapper_start :: datetime
  body_start :: datetime
  now_utc :: datetime
  body_end :: datetime
  wrapper_end :: datetime

record V1Namespace =
  ns_name :: string
  ns_labels :: "(string \<rightharpoonup> string) option"

text \<open>
  An event as the API returns it; \<open>involved_kind_name\<close> is the kind and name of
  \<^verbatim>\<open>involved_object\<close> and \<open>source_component\<close> is \<^verbatim>\<open>source.component\<close>,
  each \<open>None\<close> when the event has no such object. The events are taken to carry
  the strings \<^verbatim>\<open>EventInfo\<close> requires (name, namespace, and the kind, name and
  component where the object is present); an event without one of them is outside the
  model.
\<close>

record CoreV1Event =
  ev_name :: string
  ev_namespace :: string
  ev_type :: "string option"
  ev_reason :: "string option"
  ev_message :: "string option"
  involved_kind_name :: "(string \<times> string) option"
  first_timestamp :: "datetime option"
  last_timestamp :: "datetime option"
  event_time :: "datetime option"
  ev_count :: "int option"
  source_component :: "string option"

text \<open>\<^verbatim>\<open>ApiException\<close> of the Kubernetes library: HTTP status and reason.\<close>

record ApiException =
  api_status :: int
  api_reason :: string

text \<open>
  The cluster client as the tools see it. \<open>k8s_load_config\<close> is the exception
  \<^verbatim>\<open>K8sClient(settings)\<close> raises, if any. The other fields are the client's methods,
  each returning its value or the exception it raises; the resources a tool only counts
  are lists of names. \<open>core_list_events\<close> is the library call inside
  \<^verbatim>\<open>list_events\<close>, which is modelled below.
\<close>

record K8sClient =
  k8s_load_config :: "exn option"
  get_pods_for_deployment :: "string \<Rightarrow> string \<Rightarrow> exn + V1Pod list"
  list_pods :: "string \<Rightarrow> exn + V1Pod list"
  list_namespaces :: "exn + V1Namespace list"
  list_deployments :: "string \<Rightarrow> exn + string list"
  list_services :: "string \<Rightarrow> exn + string list"
  list_configmaps :: "string \<Rightarrow> exn + string list"
  list_secrets :: "string \<Rightarrow> exn + string list"
  get_pod :: "string \<Rightarrow> string \<Rightarrow> exn + V1Pod"
  get_pod_logs :: "string \<Rightarrow> string \<Rightarrow> string \<Rightarrow> int \<Rightarrow> int option \<Rightarrow> bool \<Rightarrow> exn + string"
  core_list_events :: "string option \<Rightarrow> string option \<Rightarrow> ApiException + CoreV1Event list"

section \<open>tools/analysis.py: analyze_restart_patterns\<close>

text \<open>The accumulators of the scan over pods and their container statuses.\<close>

record restart_scan =
  scan_total_restarts :: nat
  scan_crash_reasons :: "string \<rightharpoonup> nat"
  scan_restart_times :: "datetime list"
  scan_affected_pods :: "string list"

text \<open>\<^verbatim>\<open>crash_reasons[reason] += n\<close> on a \<^verbatim>\<open>Counter\<close>.\<close>

definition counter_add :: "(string \<rightharpoonup> nat) \<Rightarrow> string \<Rightarrow> nat \<Rightarrow> (string \<rightharpoonup> nat)" where
  "counter_add m k n = m(k \<mapsto> (case m k of None \<Rightarrow> 0 | Some c \<Rightarrow> c) + n)"

text \<open>
  One container status: the inner loop body. The state is the pod's restart count so far
  with the crash reasons and restart times collected so far.
\<close>

definition scan_status ::
  "datetime \<Rightarrow> ContainerStatus \<Rightarrow> nat \<times> (string \<rightharpoonup> nat) \<times> datetime list
     \<Rightarrow> nat \<times> (string \<rightharpoonup> nat) \<times> datetime list" where
  "scan_status cutoff_time st acc =
     (case acc of (pod_restarts, reasons, found) \<Rightarrow>
        (case last_terminated st of
           None \<Rightarrow> (pod_restarts + restart_count st, reasons, found)
         | Some t \<Rightarrow>
             let reason = (case term_reason t of
                             None \<Rightarrow> ''Unknown''
                           | Some r \<Rightarrow> if r = [] then ''Unknown'' else r);
                 reasons' = counter_add reasons reason (restart_count st)
             in (pod_restarts + restart_count st, reasons',
                 (case finished_at t of
                    None \<Rightarrow> found
                  | Some finished \<Rightarrow>
                      if cutoff_time \<le> finished then found @ [finished] else found))))"

definition scan_pod :: "datetime \<Rightarrow> V1Pod \<Rightarrow> restart_scan \<Rightarrow> restart_scan" where
  "scan_pod cutoff_time pod acc =
     (case foldl (\<lambda>a st. scan_status cutoff_time st a)
             (0, scan_crash_reasons acc, scan_restart_times acc)
             (case container_statuses pod of None \<Rightarrow> [] | Some sts \<Rightarrow> sts) of
        (pod_restarts, reasons, found) \<Rightarrow>
          if 0 < pod_restarts
          then \<lparr>scan_total_restarts = scan_total_restarts acc + pod_restarts,
                scan_crash_reasons = reasons, scan_restart_times = found,
                scan_affected_pods = scan_affected_pods acc @ [pod_name pod]\<rparr>
          else \<lparr>scan_total_restarts = scan_total_restarts acc,
                scan_crash_reasons = reasons, scan_restart_times = found,
                scan_affected_pods = scan_affected_pods acc\<rparr>)"

definition scan_pods :: "datetime \<Rightarrow> V1Pod list \<Rightarrow> restart_scan" where
  "scan_pods cutoff_time pods =
     foldl (\<lambda>a pod. scan_pod cutoff_time pod a)
       \<lparr>scan_total_restarts = 0, scan_crash_reasons = Map.empty,
        scan_restart_times = [], scan_affected_pods = []\<rparr> pods"

text \<open>
  \<^verbatim>\<open>hours = lookback_seconds / 3600\<close> and
  \<^verbatim>\<open>restart_rate = total_restarts / hours if hours > 0 else 0\<close>.
\<close>

definition restart_rate :: "nat \<Rightarrow> int \<Rightarrow> real" where
  "restart_rate count lookback_seconds =
     (let hours = real_of_int lookback_seconds / 3600 in
      if 0 < hours then real count / hours else 0)"

text \<open>
  The detected pattern. \<open>Periodic n\<close> stands for the string
  \<^verbatim>\<open>f"periodic (every ~{mean_interval / 60:.0f} minutes)"\<close> with \<open>n\<close> the number the
  format prints, the mean rounded to no decimals; \<open>Escalating\<close> and \<open>Random\<close> for \<^verbatim>\<open>"escalating"\<close> and \<^verbatim>\<open>"random"\<close>.
\<close>

datatype restart_pattern_label = Periodic real | Escalating | Random

definition intervals_of :: "datetime list \<Rightarrow> real list" where
  "intervals_of ts =
     map (\<lambda>i. real_of_int (int (ts ! (i + 1)) - int (ts ! i)) / 1000000) [0..<length ts - 1]"

text \<open>The list after \<^verbatim>\<open>restart_times.sort()\<close>, which runs only from three entries on.\<close>

definition sorted_restart_times :: "datetime list \<Rightarrow> datetime list" where
  "sorted_restart_times ts = (if 3 \<le> length ts then sort ts else ts)"

definition detect_pattern ::
  "(real \<Rightarrow> nat \<Rightarrow> real) \<Rightarrow> datetime list \<Rightarrow> restart_pattern_label option" where
  "detect_pattern rnd restart_times =
     (if 3 \<le> length restart_times then
        (let ts = sort restart_times in
         if 4 \<le> length ts then
           (let intervals = intervals_of ts;
                mean_interval = mean intervals;
                std_interval = std intervals
            in if std_interval < mean_interval * (3/10)
               then Some (Periodic (rnd (mean_interval / 60) 0))
               else if last intervals < hd intervals * (1/2) then Some Escalating
               else Some Random)
         else None)
      else None)"

definition severity_of :: "nat \<Rightarrow> real \<Rightarrow> string" where
  "severity_of count rate =
     (if count = 0 then ''none''
      else if rate < 1/2 then ''low''
      else if rate < 2 then ''medium''
      else if rate < 6 then ''high''
      else ''critical'')"

definition is_periodic :: "restart_pattern_label option \<Rightarrow> bool" where
  "is_periodic p = (case p of Some (Periodic n) \<Rightarrow> True | _ \<Rightarrow> False)"

definition recommendations_of ::
  "(string \<rightharpoonup> nat) \<Rightarrow> restart_pattern_label option \<Rightarrow> nat \<Rightarrow> string list" where
  "recommendations_of reasons pattern_detected count =
     (let r1 = (if reasons ''OOMKilled'' \<noteq> None
                then [''Increase memory limits - pods are being OOM killed''] else []);
          r2 = r1 @ (if reasons ''Error'' \<noteq> None \<or> reasons ''CrashLoopBackOff'' \<noteq> None
                     then [''Check application logs for error details''] else []);
          r3 = r2 @ (if pattern_detected = Some Escalating
                     then [''Urgent: Restart frequency is increasing - investigate immediately'']
                     else []);
          r4 = r3 @ (if is_periodic pattern_detected
                     then [''Investigate for periodic memory leaks or external triggers'']
                     else [])
      in if r4 = [] \<and> 0 < count
         then [''Review container logs and events for more context''] else r4)"

text \<open>\<^verbatim>\<open>"; ".join(xs)\<close>.\<close>

fun join :: "string \<Rightarrow> string list \<Rightarrow> string" where
  "join sep [] = []"
| "join sep [x] = x"
| "join sep (x # y # ys) = x @ sep @ join sep (y # ys)"

record RestartPattern =
  total_restarts :: nat
  restart_rate_per_hour :: real
  crash_reasons :: "string \<rightharpoonup> nat"
  restart_times :: "datetime list"
  pattern_detected :: "restart_pattern_label option"
  affected_pods :: "string list"

record restart_analysis =
  pattern :: RestartPattern
  severity :: string
  recommendation :: string

definition restart_metadata ::
  "string \<Rightarrow> string option \<Rightarrow> string \<Rightarrow> (string \<rightharpoonup> meta_value)" where
  "restart_metadata namespace deployment_name lookback_period =
     [''namespace'' \<mapsto> MStr namespace,
      ''deployment_name'' \<mapsto> (case deployment_name of None \<Rightarrow> MNone | Some d \<Rightarrow> MStr d),
      ''lookback_period'' \<mapsto> MStr lookback_period]"

text \<open>
  The part of \<^verbatim>\<open>analyze_restart_patterns\<close> after the pods are fetched and the
  lookback period is parsed: the scan, the rate, the pattern, the severity and the
  recommendation, as the payload of the envelope.
\<close>

definition restart_analysis_of ::
  "(real \<Rightarrow> nat \<Rightarrow> real) \<Rightarrow> V1Pod list \<Rightarrow> int \<Rightarrow> datetime \<Rightarrow> restart_analysis" where
  "restart_analysis_of rnd pods lookback_seconds cutoff_time =
     (let sc = scan_pods cutoff_time pods;
          rate = restart_rate (scan_total_restarts sc) lookback_seconds;
          detected = detect_pattern rnd (scan_restart_times sc);
          recs = recommendations_of (scan_crash_reasons sc) detected (scan_total_restarts sc)
      in \<lparr>pattern =
            \<lparr>total_restarts = scan_total_restarts sc,
             restart_rate_per_hour = rnd rate 2,
             crash_reasons = scan_crash_reasons sc,
             restart_times = slice_from (-20) (sorted_restart_times (scan_restart_times sc)),
             pattern_detected = detected,
             affected_pods = scan_affected_pods sc\<rparr>,
          severity = severity_of (scan_total_restarts sc) rate,
          recommendation =
            (if recs \<noteq> [] then join ''; '' recs else ''No issues detected'')\<rparr>)"

text \<open>The body of \<^verbatim>\<open>analyze_restart_patterns\<close>, before the handler wraps it.\<close>

definition analyze_restart_patterns_body ::
  "(real \<Rightarrow> nat \<Rightarrow> real) \<Rightarrow> K8sClient \<Rightarrow> clock \<Rightarrow> string \<Rightarrow> string option \<Rightarrow> string
     \<Rightarrow> exn + restart_analysis ToolResponse" where
  "analyze_restart_patterns_body rnd k8s clk namespace deployment_name lookback_period =
     (case k8s_load_config k8s of
        Some e \<Rightarrow> Inl e
      | None \<Rightarrow>
     (case (case deployment_name of
              None \<Rightarrow> list_pods k8s namespace
            | Some d \<Rightarrow> if d = [] then list_pods k8s namespace
                        else get_pods_for_deployment k8s namespace d) of
        Inl e \<Rightarrow> Inl e
      | Inr pods \<Rightarrow>
     (case parse_duration lookback_period of
        Inl e \<Rightarrow> Inl e
      | Inr lookback_seconds \<Rightarrow>
     (case minus_seconds (now_utc clk) lookback_seconds of
        Inl e \<Rightarrow> Inl e
      | Inr cutoff_time \<Rightarrow>
          Inr (ToolResponse_success
                 (Some (restart_analysis_of rnd pods lookback_seconds cutoff_time))
                 (Some (add_execution_metadata
                          (restart_metadata namespace deployment_name lookback_period)
                          (body_start clk) (body_end clk) Map.empty))
                 None)))))"

definition analyze_restart_patterns ::
  "(real \<Rightarrow> nat \<Rightarrow> real) \<Rightarrow> K8sClient \<Rightarrow> clock \<Rightarrow> string \<Rightarrow> string option \<Rightarrow> string
     \<Rightarrow> exn + restart_analysis ToolResponse" where
  "analyze_restart_patterns rnd k8s clk namespace deployment_name lookback_period =
     tool_handler (wrapper_start clk) (wrapper_end clk)
       (analyze_restart_patterns_body rnd k8s clk namespace deployment_name lookback_period)"

section \<open>tools/discovery.py: get_namespace_summary\<close>

record NamespaceSummary =
  summary_name :: string
  pod_count :: nat
  running_pods :: nat
  deployment_count :: nat
  service_count :: nat
  configmap_count :: nat
  secret_count :: nat
  ns_total_restarts :: nat
  health_score :: real
  labels :: "string \<rightharpoonup> string"

record namespace_report =
  namespaces :: "NamespaceSummary list"
  total_namespaces :: nat
  cluster_health_score :: real

definition count_running :: "V1Pod list \<Rightarrow> nat" where
  "count_running pods = length (filter (\<lambda>p. pod_phase p = ''Running'') pods)"

definition sum_restarts :: "V1Pod list \<Rightarrow> nat" where
  "sum_restarts pods =
     foldl (\<lambda>acc pod. case container_statuses pod of
                          None \<Rightarrow> acc
                        | Some sts \<Rightarrow> if sts = [] then acc
                                      else acc + sum_list (map restart_count sts))
       0 pods"

text \<open>
  The local variable \<^verbatim>\<open>health_score\<close>, from the number of pods, the number of
  running pods and the restart total.
\<close>

definition compute_health_score :: "nat \<Rightarrow> nat \<Rightarrow> nat \<Rightarrow> real" where
  "compute_health_score n_pods n_running n_restarts =
     (if 0 < n_pods then
        (let running_ratio = real n_running / real n_pods;
             restart_penalty = min 1 (real n_restarts * (5/100))
         in max 0 (running_ratio - restart_penalty))
      else 1)"

text \<open>\<^verbatim>\<open>next((n for n in k8s.list_namespaces() if n.metadata.name == ns), None)\<close>.\<close>

definition labels_of :: "V1Namespace list \<Rightarrow> string \<Rightarrow> (string \<rightharpoonup> string)" where
  "labels_of nss ns =
     (case find (\<lambda>n. ns_name n = ns) nss of
        None \<Rightarrow> Map.empty
      | Some n \<Rightarrow> (case ns_labels n of None \<Rightarrow> Map.empty | Some l \<Rightarrow> l))"

text \<open>One turn of the loop over the namespaces: six calls of the client, then the summary.\<close>

definition summarize_namespace ::
  "(real \<Rightarrow> nat \<Rightarrow> real) \<Rightarrow> K8sClient \<Rightarrow> string \<Rightarrow> exn + NamespaceSummary" where
  "summarize_namespace rnd k8s ns =
     (case list_pods k8s ns of Inl e \<Rightarrow> Inl e | Inr pods \<Rightarrow>
     (case list_deployments k8s ns of Inl e \<Rightarrow> Inl e | Inr deployments \<Rightarrow>
     (case list_services k8s ns of Inl e \<Rightarrow> Inl e | Inr services \<Rightarrow>
     (case list_configmaps k8s ns of Inl e \<Rightarrow> Inl e | Inr configmaps \<Rightarrow>
     (case list_secrets k8s ns of Inl e \<Rightarrow> Inl e | Inr secrets \<Rightarrow>
     (case list_namespaces k8s of Inl e \<Rightarrow> Inl e | Inr nss \<Rightarrow>
        Inr \<lparr>summary_name = ns,
             pod_count = length pods,
             running_pods = count_running pods,
             deployment_count = length deployments,
             service_count = length services,
             configmap_count = length configmaps,
             secret_count = length secrets,
             ns_total_restarts = sum_restarts pods,
             health_score =
               rnd (compute_health_score (length pods) (count_running pods)
                      (sum_restarts pods)) 2,
             labels = labels_of nss ns\<rparr>))))))"

fun summarize_all ::
  "(real \<Rightarrow> nat \<Rightarrow> real) \<Rightarrow> K8sClient \<Rightarrow> string list \<Rightarrow> exn + NamespaceSummary list" where
  "summarize_all rnd k8s [] = Inr []"
| "summarize_all rnd k8s (ns # rest) =
     (case summarize_namespace rnd k8s ns of
        Inl e \<Rightarrow> Inl e
      | Inr s \<Rightarrow> (case summarize_all rnd k8s rest of
                    Inl e \<Rightarrow> Inl e
                  | Inr ss \<Rightarrow> Inr (s # ss)))"

definition cluster_health_of :: "NamespaceSummary list \<Rightarrow> real" where
  "cluster_health_of summaries =
     (if summaries \<noteq> [] then sum_list (map health_score summaries) / real (length summaries)
      else 1)"

definition get_namespace_summary_body ::
  "(real \<Rightarrow> nat \<Rightarrow> real) \<Rightarrow> K8sClient \<Rightarrow> clock \<Rightarrow> string option
     \<Rightarrow> exn + namespace_report ToolResponse" where
  "get_namespace_summary_body rnd k8s clk namespace =
     (case k8s_load_config k8s of
        Some e \<Rightarrow> Inl e
      | None \<Rightarrow>
     (case (if namespace \<noteq> None \<and> namespace \<noteq> Some []
            then Inr [case namespace of Some n \<Rightarrow> n | None \<Rightarrow> []]
            else (case list_namespaces k8s of
                    Inl e \<Rightarrow> Inl e
                  | Inr nss \<Rightarrow> Inr (map ns_name nss))) of
        Inl e \<Rightarrow> Inl e
      | Inr namespaces_to_query \<Rightarrow>
     (case summarize_all rnd k8s namespaces_to_query of
        Inl e \<Rightarrow> Inl e
      | Inr summaries \<Rightarrow>
          Inr (ToolResponse_success
                 (Some \<lparr>namespaces = summaries,
                        total_namespaces = length summaries,
                        cluster_health_score = rnd (cluster_health_of summaries) 2\<rparr>)
                 (Some (add_execution_metadata
                          [''namespace'' \<mapsto> MStr (case namespace of
                                                       None \<Rightarrow> ''all''
                                                     | Some n \<Rightarrow> if n = [] then ''all'' else n)]
                          (body_start clk) (body_end clk) Map.empty))
                 None))))"

definition get_namespace_summary ::
  "(real \<Rightarrow> nat \<Rightarrow> real) \<Rightarrow> K8sClient \<Rightarrow> clock \<Rightarrow> string option
     \<Rightarrow> exn + namespace_report ToolResponse" where
  "get_namespace_summary rnd k8s clk namespace =
     tool_handler (wrapper_start clk) (wrapper_end clk)
       (get_namespace_summary_body rnd k8s clk namespace)"

text \<open>What every summary the loop builds satisfies (used in the proofs below).\<close>

definition summary_ok :: "(real \<Rightarrow> nat \<Rightarrow> real) \<Rightarrow> NamespaceSummary \<Rightarrow> bool" where
  "summary_ok rnd s =
     (running_pods s \<le> pod_count s
      \<and> health_score s =
          rnd (compute_health_score (pod_count s) (running_pods s) (ns_total_restarts s)) 2)"

section \<open>clients/prometheus.py as the metrics tools see it\<close>

text \<open>
  One entry of an instant query: the \<^verbatim>\<open>pod\<close> label, if present, and the sample
  \<^verbatim>\<open>float(r["value"][1])\<close> as a real number (NaN and the infinities are outside the
  model). One sample of a range query: its timestamp and its text, which is either the
  string \<^verbatim>\<open>"NaN"\<close> or a number.
\<close>

record instant_sample =
  sample_pod :: "string option"
  sample_val :: real

datatype sample_text = NaN | Num real

record range_series =
  series_samples :: "(real \<times> sample_text) list"

record resource_limits =
  cpu_requests :: "instant_sample list"
  cpu_limits :: "instant_sample list"
  memory_requests :: "instant_sample list"
  memory_limits :: "instant_sample list"

record PrometheusClient =
  get_container_cpu_usage :: "string \<Rightarrow> string option \<Rightarrow> exn + instant_sample list"
  get_container_memory_usage :: "string \<Rightarrow> string option \<Rightarrow> exn + instant_sample list"
  get_resource_limits :: "string \<Rightarrow> string option \<Rightarrow> exn + resource_limits"
  query_range :: "string \<Rightarrow> datetime \<Rightarrow> datetime \<Rightarrow> exn + range_series list"

section \<open>tools/metrics.py: get_current_resource_usage\<close>

text \<open>Float division \<^verbatim>\<open>a / b\<close>, which raises \<^verbatim>\<open>ZeroDivisionError\<close> when \<open>b\<close> is 0.\<close>

definition py_truediv :: "real \<Rightarrow> real \<Rightarrow> exn + real" where
  "py_truediv a b =
     (if b = 0 then Inl (Exn (OtherException ''ZeroDivisionError'') ''float division by zero'')
      else Inr (a / b))"

record ResourceUsage =
  ru_pod_name :: string
  ru_namespace :: string
  cpu_usage_cores :: real
  cpu_usage_percent :: "real option"
  cpu_request_cores :: "real option"
  cpu_limit_cores :: "real option"
  memory_usage_bytes :: int
  memory_usage_mb :: real
  memory_usage_percent :: "real option"
  memory_request_bytes :: "int option"
  memory_limit_bytes :: "int option"

definition is_cpu_throttled :: "ResourceUsage \<Rightarrow> bool" where
  "is_cpu_throttled u = (case cpu_usage_percent u of Some p \<Rightarrow> 90 \<le> p | None \<Rightarrow> False)"

definition is_memory_pressure :: "ResourceUsage \<Rightarrow> bool" where
  "is_memory_pressure u = (case memory_usage_percent u of Some p \<Rightarrow> 80 \<le> p | None \<Rightarrow> False)"

text \<open>\<^verbatim>\<open>build_lookup\<close>: pod name to value, a later entry replacing an earlier one.\<close>

definition build_lookup :: "instant_sample list \<Rightarrow> (string \<rightharpoonup> real)" where
  "build_lookup results =
     foldl (\<lambda>lookup r. lookup((case sample_pod r of None \<Rightarrow> [] | Some p \<Rightarrow> p) \<mapsto> sample_val r))
       Map.empty results"

text \<open>
  \<^verbatim>\<open>pods_data\<close>: a dictionary in insertion order, from the pod name to the usages
  stored so far.
\<close>

record pod_data =
  cpu_usage :: "real option"
  memory_usage :: "int option"

fun upsert :: "string \<Rightarrow> (pod_data \<Rightarrow> pod_data) \<Rightarrow> (string \<times> pod_data) list
                 \<Rightarrow> (string \<times> pod_data) list" where
  "upsert k f [] = [(k, f \<lparr>cpu_usage = None, memory_usage = None\<rparr>)]"
| "upsert k f ((k', d) # rest) =
     (if k' = k then (k', f d) # rest else (k', d) # upsert k f rest)"

definition usage_pod_label :: "instant_sample \<Rightarrow> string" where
  "usage_pod_label r = (case sample_pod r of None \<Rightarrow> ''unknown'' | Some p \<Rightarrow> p)"

definition merge_usage ::
  "instant_sample list \<Rightarrow> instant_sample list \<Rightarrow> (string \<times> pod_data) list" where
  "merge_usage cpu_results memory_results =
     foldl (\<lambda>pods_data r.
              upsert (usage_pod_label r)
                (\<lambda>d. d\<lparr>memory_usage := Some (py_int_of_float (sample_val r))\<rparr>) pods_data)
       (foldl (\<lambda>pods_data r.
                 upsert (usage_pod_label r) (\<lambda>d. d\<lparr>cpu_usage := Some (sample_val r)\<rparr>) pods_data)
          [] cpu_results)
       memory_results"

text \<open>
  The percentage of a limit, the local \<^verbatim>\<open>cpu_percent\<close> and \<^verbatim>\<open>memory_percent\<close>:
  \<^verbatim>\<open>if limit and limit > 0: percent = (usage / limit) * 100\<close>.
\<close>

definition percent_of_limit :: "real \<Rightarrow> real option \<Rightarrow> exn + real option" where
  "percent_of_limit usage limit =
     (case limit of
        None \<Rightarrow> Inr None
      | Some l \<Rightarrow>
          if l \<noteq> 0 \<and> 0 < l
          then (case py_truediv usage l of Inl e \<Rightarrow> Inl e | Inr q \<Rightarrow> Inr (Some (q * 100)))
          else Inr None)"

text \<open>
  \<^verbatim>\<open>round(x, n) if x else None\<close> and \<^verbatim>\<open>int(x) if x else None\<close>: the test is
  false for \<^verbatim>\<open>None\<close> and for zero.
\<close>

definition round_if_truthy :: "(real \<Rightarrow> nat \<Rightarrow> real) \<Rightarrow> real option \<Rightarrow> nat \<Rightarrow> real option" where
  "round_if_truthy rnd x n =
     (case x of None \<Rightarrow> None | Some v \<Rightarrow> if v \<noteq> 0 then Some (rnd v n) else None)"

definition int_if_truthy :: "real option \<Rightarrow> int option" where
  "int_if_truthy x =
     (case x of None \<Rightarrow> None | Some v \<Rightarrow> if v \<noteq> 0 then Some (py_int_of_float v) else None)"

text \<open>
  An alert line; the number is what the \<^verbatim>\<open>.0f\<close> format prints in
  \<^verbatim>\<open>f"Pod {pod} CPU usage at {cpu_percent:.0f}% of limit"\<close>.
\<close>

datatype usage_alert = CpuAlert string real | MemoryAlert string real

record limit_lookups =
  cpu_limits_map :: "string \<rightharpoonup> real"
  cpu_requests_map :: "string \<rightharpoonup> real"
  memory_limits_map :: "string \<rightharpoonup> real"
  memory_requests_map :: "string \<rightharpoonup> real"

text \<open>One turn of the loop over \<^verbatim>\<open>pods_data.items()\<close>: the usage record and its alerts.\<close>

definition pod_usage ::
  "(real \<Rightarrow> nat \<Rightarrow> real) \<Rightarrow> string \<Rightarrow> limit_lookups \<Rightarrow> string \<times> pod_data
     \<Rightarrow> exn + ResourceUsage \<times> usage_alert list" where
  "pod_usage rnd namespace lk entry =
     (case entry of (pod, d) \<Rightarrow>
        let cpu_used = (case cpu_usage d of None \<Rightarrow> 0 | Some v \<Rightarrow> v);
            memory_used = (case memory_usage d of None \<Rightarrow> 0 | Some v \<Rightarrow> v);
            cpu_limit = cpu_limits_map lk pod;
            cpu_request = cpu_requests_map lk pod;
            memory_limit = memory_limits_map lk pod;
            memory_request = memory_requests_map lk pod
        in
        (case percent_of_limit cpu_used cpu_limit of
           Inl e \<Rightarrow> Inl e
         | Inr cpu_percent \<Rightarrow>
        (case percent_of_limit (real_of_int memory_used) memory_limit of
           Inl e \<Rightarrow> Inl e
         | Inr memory_percent \<Rightarrow>
             let usage =
                   \<lparr>ru_pod_name = pod,
                    ru_namespace = namespace,
                    cpu_usage_cores = rnd cpu_used 4,
                    cpu_usage_percent = round_if_truthy rnd cpu_percent 1,
                    cpu_request_cores = round_if_truthy rnd cpu_request 4,
                    cpu_limit_cores = round_if_truthy rnd cpu_limit 4,
                    memory_usage_bytes = memory_used,
                    memory_usage_mb = rnd (real_of_int memory_used / (1024 * 1024)) 2,
                    memory_usage_percent = round_if_truthy rnd memory_percent 1,
                    memory_request_bytes = int_if_truthy memory_request,
                    memory_limit_bytes = int_if_truthy memory_limit\<rparr>
             in Inr (usage,
                     (if is_cpu_throttled usage
                      then [CpuAlert pod
                              (rnd (case cpu_percent of None \<Rightarrow> 0 | Some p \<Rightarrow> p) 0)]
                      else [])
                     @ (if is_memory_pressure usage
                        then [MemoryAlert pod
                                (rnd (case memory_percent of None \<Rightarrow> 0 | Some p \<Rightarrow> p) 0)]
                        else [])))))"

fun usage_loop ::
  "(real \<Rightarrow> nat \<Rightarrow> real) \<Rightarrow> string \<Rightarrow> limit_lookups \<Rightarrow> (string \<times> pod_data) list
     \<Rightarrow> exn + ResourceUsage list \<times> usage_alert list" where
  "usage_loop rnd namespace lk [] = Inr ([], [])"
| "usage_loop rnd namespace lk (entry # rest) =
     (case pod_usage rnd namespace lk entry of
        Inl e \<Rightarrow> Inl e
      | Inr (u, al) \<Rightarrow>
          (case usage_loop rnd namespace lk rest of
             Inl e \<Rightarrow> Inl e
           | Inr (us, als) \<Rightarrow> Inr (u # us, al @ als)))"

record usage_summary =
  summary_pod_count :: nat
  total_cpu_cores :: real
  total_memory_mb :: real
  alerts :: "usage_alert list"

record usage_report =
  usage :: "ResourceUsage list"
  summary :: usage_summary

definition get_current_resource_usage_body ::
  "(real \<Rightarrow> nat \<Rightarrow> real) \<Rightarrow> PrometheusClient \<Rightarrow> clock \<Rightarrow> string \<Rightarrow> string option
     \<Rightarrow> exn + usage_report ToolResponse" where
  "get_current_resource_usage_body rnd prom clk namespace deployment_name =
     (case get_container_cpu_usage prom namespace deployment_name of
        Inl e \<Rightarrow> Inl e
      | Inr cpu_results \<Rightarrow>
     (case get_container_memory_usage prom namespace deployment_name of
        Inl e \<Rightarrow> Inl e
      | Inr memory_results \<Rightarrow>
     (case get_resource_limits prom namespace deployment_name of
        Inl e \<Rightarrow> Inl e
      | Inr limits \<Rightarrow>
     (case usage_loop rnd namespace
             \<lparr>cpu_limits_map = build_lookup (cpu_limits limits),
              cpu_requests_map = build_lookup (cpu_requests limits),
              memory_limits_map = build_lookup (memory_limits limits),
              memory_requests_map = build_lookup (memory_requests limits)\<rparr>
             (merge_usage cpu_results memory_results) of
        Inl e \<Rightarrow> Inl e
      | Inr (usage_list, alert_list) \<Rightarrow>
          Inr (ToolResponse_success
                 (Some \<lparr>usage = usage_list,
                        summary =
                          \<lparr>summary_pod_count = length usage_list,
                           total_cpu_cores = rnd (sum_list (map cpu_usage_cores usage_list)) 4,
                           total_memory_mb = rnd (sum_list (map memory_usage_mb usage_list)) 2,
                           alerts = alert_list\<rparr>\<rparr>)
                 (Some (add_execution_metadata
                          [''namespace'' \<mapsto> MStr namespace,
                           ''deployment_name'' \<mapsto>
                              (case deployment_name of None \<Rightarrow> MNone | Some d \<Rightarrow> MStr d)]
                          (body_start clk) (body_end clk) Map.empty))
                 None)))))"

definition get_current_resource_usage ::
  "(real \<Rightarrow> nat \<Rightarrow> real) \<Rightarrow> PrometheusClient \<Rightarrow> clock \<Rightarrow> string \<Rightarrow> string option
     \<Rightarrow> exn + usage_report ToolResponse" where
  "get_current_resource_usage rnd prom clk namespace deployment_name =
     tool_handler (wrapper_start clk) (wrapper_end clk)
       (get_current_resource_usage_body rnd prom clk namespace deployment_name)"

section \<open>tools/metrics.py: get_resource_trends\<close>

datatype TrendDirection = INCREASING | DECREASING | STABLE | VOLATILE

fun trend_text :: "TrendDirection \<Rightarrow> string" where
  "trend_text INCREASING = ''increasing''"
| "trend_text DECREASING = ''decreasing''"
| "trend_text STABLE = ''stable''"
| "trend_text VOLATILE = ''volatile''"

record ResourceTrend =
  resource_type :: string
  trend_namespace :: string
  trend_deployment_name :: "string option"
  trend_period :: string
  average :: real
  minimum :: real
  maximum :: real
  p50 :: real
  p95 :: real
  p99 :: real
  std_dev :: real
  trend_direction :: TrendDirection
  trend_change_percent :: "real option"
  spike_count :: nat
  spike_times :: "real list"
  unit_label :: string

record trend_report =
  trend :: "ResourceTrend option"
  interpretation_text :: string

text \<open>
  Decimal text of numbers: \<^verbatim>\<open>str(n)\<close> and the formats \<^verbatim>\<open>.4f\<close> and \<^verbatim>\<open>+.1f\<close>,
  which round to the given number of digits as \<^verbatim>\<open>round\<close> does.
\<close>

fun show_nat :: "nat \<Rightarrow> string" where
  "show_nat n =
     (if n < 10 then [char_of (48 + n)]
      else show_nat (n div 10) @ [char_of (48 + n mod 10)])"

declare show_nat.simps [simp del]

definition pad_zeros :: "nat \<Rightarrow> string \<Rightarrow> string" where
  "pad_zeros n s = replicate (n - length s) CHR ''0'' @ s"

definition format_fixed :: "(real \<Rightarrow> nat \<Rightarrow> real) \<Rightarrow> real \<Rightarrow> nat \<Rightarrow> string" where
  "format_fixed rnd x n =
     (let k = nat \<lfloor>rnd \<bar>x\<bar> n * 10 ^ n\<rfloor> in
      (if x < 0 then ''-'' else [])
      @ show_nat (k div 10 ^ n)
      @ (if n = 0 then [] else ''.'' @ pad_zeros n (show_nat (k mod 10 ^ n))))"

definition format_signed :: "(real \<Rightarrow> nat \<Rightarrow> real) \<Rightarrow> real option \<Rightarrow> nat \<Rightarrow> string" where
  "format_signed rnd x n =
     (case x of
        None \<Rightarrow> ''+nan''
      | Some v \<Rightarrow> (if v < 0 then [] else ''+'') @ format_fixed rnd v n)"

definition py_upper_char :: "char \<Rightarrow> char" where
  "py_upper_char c =
     (if 97 \<le> (of_char c :: nat) \<and> (of_char c :: nat) \<le> 122
      then char_of ((of_char c :: nat) - 32) else c)"

definition py_upper :: "string \<Rightarrow> string" where
  "py_upper s = map py_upper_char s"

text \<open>
  \<^verbatim>\<open>np.min\<close>, \<^verbatim>\<open>np.max\<close> and \<^verbatim>\<open>np.percentile\<close> (linear interpolation between
  the two nearest ranks) on a non-empty list.
\<close>

definition np_min :: "real list \<Rightarrow> real" where
  "np_min xs = foldl min (hd xs) (tl xs)"

definition np_max :: "real list \<Rightarrow> real" where
  "np_max xs = foldl max (hd xs) (tl xs)"

definition np_percentile :: "real list \<Rightarrow> real \<Rightarrow> real" where
  "np_percentile xs q =
     (let s = sort xs;
          h = real (length xs - 1) * q / 100;
          lo = nat \<lfloor>h\<rfloor>;
          hi = min (lo + 1) (length xs - 1)
      in s ! lo + (h - real lo) * (s ! hi - s ! lo))"

text \<open>
  The query and the unit for a metric type; \<open>None\<close> is the \<^verbatim>\<open>else\<close> branch, which
  calls \<^verbatim>\<open>ToolResponse.error\<close>.
\<close>

definition dquote :: string where
  "dquote = [CHR 0x22]"

definition trend_selector :: "string \<Rightarrow> string option \<Rightarrow> string" where
  "trend_selector namespace deployment_name =
     (case deployment_name of
        None \<Rightarrow> ''namespace='' @ dquote @ namespace @ dquote
      | Some d \<Rightarrow>
          if d = [] then ''namespace='' @ dquote @ namespace @ dquote
          else ''namespace='' @ dquote @ namespace @ dquote
               @ '', pod=~'' @ dquote @ d @ ''.*'' @ dquote)"

definition trend_query :: "string \<Rightarrow> string option \<Rightarrow> string \<Rightarrow> (string \<times> string) option" where
  "trend_query namespace deployment_name metric_type =
     (let selector = trend_selector namespace deployment_name in
      if metric_type = ''cpu'' then
        Some (''sum(rate(container_cpu_usage_seconds_total{'' @ selector @ ''}[5m]))'', ''cores'')
      else if metric_type = ''memory'' then
        Some (''sum(container_memory_working_set_bytes{'' @ selector @ ''})'', ''bytes'')
      else if metric_type = ''network_rx'' then
        Some (''sum(rate(container_network_receive_bytes_total{'' @ selector @ ''}[5m]))'',
              ''bytes/sec'')
      else if metric_type = ''network_tx'' then
        Some (''sum(rate(container_network_transmit_bytes_total{'' @ selector @ ''}[5m]))'',
              ''bytes/sec'')
      else None)"

text \<open>
  \<^verbatim>\<open>values\<close> keeps the samples that are not \<^verbatim>\<open>"NaN"\<close>; \<^verbatim>\<open>timestamps\<close> keeps the
  timestamp of every sample.
\<close>

fun values_of :: "(real \<times> sample_text) list \<Rightarrow> real list" where
  "values_of [] = []"
| "values_of ((t, NaN) # rest) = values_of rest"
| "values_of ((t, Num v) # rest) = v # values_of rest"

definition timestamps_of :: "(real \<times> sample_text) list \<Rightarrow> real list" where
  "timestamps_of samples = map fst samples"

text \<open>
  The quarter means; the first quarter \<^verbatim>\<open>values[: n // 4]\<close> is empty for fewer than
  four values, and its mean is then NaN. The last quarter is \<^verbatim>\<open>values[-n // 4 :]\<close>.
\<close>

definition first_quarter :: "real list \<Rightarrow> real option" where
  "first_quarter vs = np_mean (slice_to (int (length vs) div 4) vs)"

definition last_quarter :: "real list \<Rightarrow> real option" where
  "last_quarter vs = np_mean (slice_from ((- int (length vs)) div 4) vs)"

text \<open>
  \<^verbatim>\<open>change_percent\<close>; a comparison with NaN is false and arithmetic on NaN gives NaN.
\<close>

definition change_percent :: "real list \<Rightarrow> real option" where
  "change_percent vs =
     (if first_quarter vs = Some 0 then
        (if last_quarter vs = Some 0 then Some 0 else Some 100)
      else
        (case (first_quarter vs, last_quarter vs) of
           (Some f, Some l) \<Rightarrow> Some (((l - f) / f) * 100)
         | _ \<Rightarrow> None))"

definition direction_of_change :: "real option \<Rightarrow> TrendDirection" where
  "direction_of_change c =
     (if (case c of None \<Rightarrow> False | Some x \<Rightarrow> \<bar>x\<bar> < 10) then STABLE
      else if (case c of None \<Rightarrow> False | Some x \<Rightarrow> 0 < x) then INCREASING
      else DECREASING)"

definition coefficient_of_variation :: "real list \<Rightarrow> real" where
  "coefficient_of_variation vs = (if 0 < mean vs then std vs / mean vs else 0)"

definition classify_trend :: "real list \<Rightarrow> TrendDirection" where
  "classify_trend vs =
     (if 1/2 < coefficient_of_variation vs then VOLATILE
      else direction_of_change (change_percent vs))"

text \<open>
  \<^verbatim>\<open>np.where(values_array > spike_threshold)[0]\<close>, then the timestamps at those
  indices of \<^verbatim>\<open>timestamps\<close>.
\<close>

definition spike_threshold :: "real list \<Rightarrow> real" where
  "spike_threshold vs = mean vs + 2 * std vs"

definition spike_indices :: "real list \<Rightarrow> nat list" where
  "spike_indices vs = filter (\<lambda>i. spike_threshold vs < vs ! i) [0..<length vs]"

definition spike_times_of :: "real list \<Rightarrow> real list \<Rightarrow> real list" where
  "spike_times_of vs timestamps =
     map (\<lambda>i. timestamps ! i) (filter (\<lambda>i. i < length timestamps) (spike_indices vs))"

definition trend_of ::
  "(real \<Rightarrow> nat \<Rightarrow> real) \<Rightarrow> string \<Rightarrow> string option \<Rightarrow> string \<Rightarrow> string \<Rightarrow> string
     \<Rightarrow> real list \<Rightarrow> real list \<Rightarrow> ResourceTrend" where
  "trend_of rnd namespace deployment_name metric_type period_text unit_text vs timestamps =
     \<lparr>resource_type = metric_type,
      trend_namespace = namespace,
      trend_deployment_name = deployment_name,
      trend_period = period_text,
      average = rnd (mean vs) 4,
      minimum = rnd (np_min vs) 4,
      maximum = rnd (np_max vs) 4,
      p50 = rnd (np_percentile vs 50) 4,
      p95 = rnd (np_percentile vs 95) 4,
      p99 = rnd (np_percentile vs 99) 4,
      std_dev = rnd (std vs) 4,
      trend_direction = classify_trend vs,
      trend_change_percent = map_option (\<lambda>c. rnd c 1) (change_percent vs),
      spike_count = length (spike_times_of vs timestamps),
      spike_times = slice_to 10 (spike_times_of vs timestamps),
      unit_label = unit_text\<rparr>"

definition interpretation_of ::
  "(real \<Rightarrow> nat \<Rightarrow> real) \<Rightarrow> string \<Rightarrow> string \<Rightarrow> string \<Rightarrow> real list \<Rightarrow> ResourceTrend
     \<Rightarrow> string" where
  "interpretation_of rnd metric_type period_text unit_text vs t =
     py_upper metric_type @ '' usage is '' @ trend_text (trend_direction t)
     @ (if trend_direction t = INCREASING \<or> trend_direction t = DECREASING
        then '' ('' @ format_signed rnd (change_percent vs) 1 @ ''% over '' @ period_text @ '')''
        else [])
     @ (if 0 < spike_count t
        then ''. Detected '' @ show_nat (spike_count t) @ '' spike(s).'' else [])
     @ '' Average: '' @ format_fixed rnd (mean vs) 4 @ '' '' @ unit_text
     @ '', P95: '' @ format_fixed rnd (np_percentile vs 95) 4 @ '' '' @ unit_text @ ''.''"

definition opt_str :: "string option \<Rightarrow> meta_value" where
  "opt_str s = (case s of None \<Rightarrow> MNone | Some x \<Rightarrow> MStr x)"

text \<open>
  The part of \<^verbatim>\<open>get_resource_trends\<close> after the range query returned: the three
  envelopes it can build from the result list.
\<close>

definition trend_envelope ::
  "(real \<Rightarrow> nat \<Rightarrow> real) \<Rightarrow> clock \<Rightarrow> string \<Rightarrow> string option \<Rightarrow> string \<Rightarrow> string
     \<Rightarrow> string \<Rightarrow> range_series list \<Rightarrow> trend_report ToolResponse" where
  "trend_envelope rnd clk namespace deployment_name metric_type period_text unit_text results =
     (if results = [] \<or> series_samples (hd results) = [] then
        ToolResponse_partial
          (Some \<lparr>trend = None,
                 interpretation_text = ''No data available for the specified period.''\<rparr>)
          [''No metric data found. The deployment may not exist or has no pods.'']
          (Some (add_execution_metadata
                   [''namespace'' \<mapsto> MStr namespace,
                    ''deployment_name'' \<mapsto> opt_str deployment_name,
                    ''metric_type'' \<mapsto> MStr metric_type]
                   (body_start clk) (body_end clk) Map.empty))
      else
        (let vs = values_of (series_samples (hd results));
             timestamps = timestamps_of (series_samples (hd results))
         in if length vs < 2 then
              ToolResponse_partial
                (Some \<lparr>trend = None,
                       interpretation_text = ''Insufficient data points for trend analysis.''\<rparr>)
                [''Need at least 2 data points for trend analysis.'']
                (Some (add_execution_metadata Map.empty
                         (body_start clk) (body_end clk) Map.empty))
            else
              (let t = trend_of rnd namespace deployment_name metric_type period_text unit_text
                         vs timestamps
               in ToolResponse_success
                    (Some \<lparr>trend = Some t,
                           interpretation_text =
                             interpretation_of rnd metric_type period_text unit_text vs t\<rparr>)
                    (Some (add_execution_metadata
                             [''namespace'' \<mapsto> MStr namespace,
                              ''deployment_name'' \<mapsto> opt_str deployment_name,
                              ''metric_type'' \<mapsto> MStr metric_type,
                              ''period'' \<mapsto> MStr period_text]
                             (body_start clk) (body_end clk) Map.empty))
                    None)))"

definition get_resource_trends_body ::
  "(real \<Rightarrow> nat \<Rightarrow> real) \<Rightarrow> PrometheusClient \<Rightarrow> clock \<Rightarrow> string \<Rightarrow> string option \<Rightarrow> string
     \<Rightarrow> string \<Rightarrow> exn + trend_report ToolResponse" where
  "get_resource_trends_body rnd prom clk namespace deployment_name metric_type period_text =
     (case trend_query namespace deployment_name metric_type of
        None \<Rightarrow>
          ToolResponse_error
            (''Invalid metric_type: '' @ metric_type
             @ ''. Use 'cpu', 'memory', 'network_rx', or 'network_tx'.'')
            (Some ''ValidationError'') None
      | Some (query, unit_text) \<Rightarrow>
     (case parse_duration period_text of
        Inl e \<Rightarrow> Inl e
      | Inr period_seconds \<Rightarrow>
     (case minus_seconds (now_utc clk) period_seconds of
        Inl e \<Rightarrow> Inl e
      | Inr start_dt \<Rightarrow>
     (case query_range prom query start_dt (now_utc clk) of
        Inl e \<Rightarrow> Inl e
      | Inr results \<Rightarrow>
          Inr (trend_envelope rnd clk namespace deployment_name metric_type period_text
                 unit_text results)))))"

definition get_resource_trends ::
  "(real \<Rightarrow> nat \<Rightarrow> real) \<Rightarrow> PrometheusClient \<Rightarrow> clock \<Rightarrow> string \<Rightarrow> string option \<Rightarrow> string
     \<Rightarrow> string \<Rightarrow> exn + trend_report ToolResponse" where
  "get_resource_trends rnd prom clk namespace deployment_name metric_type period_text =
     tool_handler (wrapper_start clk) (wrapper_end clk)
       (get_resource_trends_body rnd prom clk namespace deployment_name metric_type
          period_text)"

section \<open>clients/kubernetes.py: list_events\<close>




section \<open>tools/health.py: get_recent_events\<close>

datatype EventSeverity = NORMAL | WARNING

record EventInfo =
  info_name :: string
  info_namespace :: string
  info_type :: EventSeverity
  info_reason :: string
  info_message :: string
  involved_object :: "string \<times> string"
  first_seen :: datetime
  last_seen :: datetime
  info_count :: int
  info_source :: string

record events_report =
  events :: "EventInfo list"
  total_count :: nat
  warning_count :: nat
  truncated :: bool

text \<open>\<^verbatim>\<open>x or d\<close> on an optional string: \<open>d\<close> for \<^verbatim>\<open>None\<close> and for the empty string.\<close>

definition str_or :: "string option \<Rightarrow> string \<Rightarrow> string" where
  "str_or x d = (case x of None \<Rightarrow> d | Some s \<Rightarrow> if s = [] then d else s)"

definition truthy :: "string option \<Rightarrow> bool" where
  "truthy x = (case x of None \<Rightarrow> False | Some s \<Rightarrow> s \<noteq> [])"








section \<open>tools/health.py: get_container_logs\<close>

text \<open>\<^verbatim>\<open>logs.split("\n")\<close>: the pieces between newlines; the empty text gives one empty piece.\<close>

definition newline :: string where
  "newline = [CHR 0x0A]"

fun split_newline :: "string \<Rightarrow> string list" where
  "split_newline [] = [[]]"
| "split_newline (c # cs) =
     (if c = CHR 0x0A then [] # split_newline cs
      else (c # hd (split_newline cs)) # tl (split_newline cs))"

text \<open>tools/base.py, \<^verbatim>\<open>truncate_logs\<close>.\<close>

definition truncate_logs :: "string \<Rightarrow> int \<Rightarrow> string \<times> bool" where
  "truncate_logs logs max_lines =
     (let log_lines = split_newline logs in
      if int (length log_lines) \<le> max_lines then (logs, False)
      else (join newline (slice_from (- max_lines) log_lines), True))"

record logs_report =
  logs_text :: string
  line_count :: nat
  logs_truncated :: bool
  logs_pod_name :: string
  logs_container_name :: string

text \<open>\<^verbatim>\<open>str(n)\<close> of an integer.\<close>

definition show_int :: "int \<Rightarrow> string" where
  "show_int n = (if n < 0 then ''-'' else []) @ show_nat (nat \<bar>n\<bar>)"

text \<open>
  The text of a list of container names inside an f-string: the \<^verbatim>\<open>repr\<close> of the
  list. Container names are DNS labels (lower-case letters, digits and hyphens), so the
  \<^verbatim>\<open>repr\<close> of a name is the name between single quotes.
\<close>

definition squote :: string where
  "squote = [CHR 0x27]"

definition repr_names :: "string list \<Rightarrow> string" where
  "repr_names names = ''['' @ join '', '' (map (\<lambda>n. squote @ n @ squote) names) @ '']''"

text \<open>
  \<^verbatim>\<open>since_seconds\<close>: \<^verbatim>\<open>None\<close> unless \<^verbatim>\<open>since\<close> is given and not empty, then
  the parsed duration (or the \<^verbatim>\<open>ValueError\<close> of the parser).
\<close>

definition since_seconds_of :: "string option \<Rightarrow> exn + int option" where
  "since_seconds_of since =
     (if truthy since then
        (case parse_duration (str_or since []) of Inl e \<Rightarrow> Inl e | Inr n \<Rightarrow> Inr (Some n))
      else Inr None)"

text \<open>
  The part of \<^verbatim>\<open>get_container_logs\<close> after the container name is known: the logs
  are fetched and the envelope is built by the constructor of the class, without an
  \<^verbatim>\<open>error\<close> argument.
\<close>

definition fetch_logs ::
  "K8sClient \<Rightarrow> clock \<Rightarrow> string \<Rightarrow> string \<Rightarrow> string \<Rightarrow> int \<Rightarrow> int \<Rightarrow> string option
     \<Rightarrow> int option \<Rightarrow> bool \<Rightarrow> exn + logs_report ToolResponse" where
  "fetch_logs k8s clk namespace pod container max_lines tail_lines since since_seconds previous =
     (case get_pod_logs k8s namespace pod container tail_lines since_seconds previous of
        Inl e \<Rightarrow> Inl e
      | Inr fetched \<Rightarrow>
          (let (logs, is_truncated) = truncate_logs fetched max_lines;
               n = (if logs \<noteq> [] then length (split_newline logs) else 0)
           in Inr \<lparr>status = (if is_truncated then PARTIAL else SUCCESS),
                   result = Some \<lparr>logs_text = logs,
                                  line_count = n,
                                  logs_truncated = is_truncated,
                                  logs_pod_name = pod,
                                  logs_container_name = container\<rparr>,
                   error = ClassmethodDefault,
                   warnings =
                     (if is_truncated
                      then [''Logs truncated to '' @ show_int max_lines
                            @ '' lines. Use 'since' parameter to narrow the time range.'']
                      else []),
                   metadata =
                     add_execution_metadata
                       [''namespace'' \<mapsto> MStr namespace,
                        ''pod_name'' \<mapsto> MStr pod,
                        ''container_name'' \<mapsto> MStr container,
                        ''tail_lines'' \<mapsto> MInt tail_lines,
                        ''since'' \<mapsto> opt_str since,
                        ''previous'' \<mapsto> MBool previous]
                       (body_start clk) (body_end clk) Map.empty\<rparr>))"

text \<open>
  The body of \<^verbatim>\<open>get_container_logs\<close>. With no container name given the pod is read:
  more than one container leads to the call \<^verbatim>\<open>ToolResponse.error\<close>, no container
  to the \<^verbatim>\<open>IndexError\<close> of \<^verbatim>\<open>containers[0]\<close>, and one container to its name.
\<close>

definition get_container_logs_body ::
  "K8sClient \<Rightarrow> Settings \<Rightarrow> clock \<Rightarrow> string \<Rightarrow> string \<Rightarrow> string option \<Rightarrow> int
     \<Rightarrow> string option \<Rightarrow> bool \<Rightarrow> exn + logs_report ToolResponse" where
  "get_container_logs_body k8s settings clk namespace pod container_name tail_lines0 since
     previous =
     (case k8s_load_config k8s of
        Some e \<Rightarrow> Inl e
      | None \<Rightarrow>
     (let max_lines = min tail_lines0 (max_log_lines settings * 5);
          tail_lines = min tail_lines0 max_lines
      in
     (case since_seconds_of since of
        Inl e \<Rightarrow> Inl e
      | Inr since_seconds \<Rightarrow>
          if \<not> truthy container_name then
            (case get_pod k8s namespace pod of
               Inl e \<Rightarrow> Inl e
             | Inr p \<Rightarrow>
                 if 1 < length (spec_containers p) then
                   ToolResponse_error
                     (''Pod has multiple containers: '' @ repr_names (spec_containers p)
                      @ ''. Please specify container_name.'')
                     (Some ''MultipleContainersError'') None
                 else if spec_containers p = [] then
                   Inl (Exn (OtherException ''IndexError'') ''list index out of range'')
                 else
                   fetch_logs k8s clk namespace pod (hd (spec_containers p)) max_lines
                     tail_lines since since_seconds previous)
          else
            fetch_logs k8s clk namespace pod (str_or container_name []) max_lines
              tail_lines since since_seconds previous)))"

definition get_container_logs ::
  "K8sClient \<Rightarrow> Settings \<Rightarrow> clock \<Rightarrow> string \<Rightarrow> string \<Rightarrow> string option \<Rightarrow> int
     \<Rightarrow> string option \<Rightarrow> bool \<Rightarrow> exn + logs_report ToolResponse" where
  "get_container_logs k8s settings clk namespace pod container_name tail_lines since previous =
     tool_handler (wrapper_start clk) (wrapper_end clk)
       (get_container_logs_body k8s settings clk namespace pod container_name tail_lines since
          previous)"

section \<open>Example inputs\<close>

text \<open>Concrete clock readings, pods and clients on which the theorems below are run.\<close>

definition example_clock :: clock where
  "example_clock = \<lparr>wrapper_start = 90000000000, body_start = 90000000001,
      now_utc = 90000000002, body_end = 90000000003, wrapper_end = 90000000004\<rparr>"

definition crashing_pod :: V1Pod where
  "crashing_pod =
     \<lparr>pod_name = ''api-0'', pod_phase = ''Running'',
      container_statuses = Some
        [\<lparr>cs_name = ''api'', restart_count = 48,
          last_terminated = Some \<lparr>term_reason = Some ''OOMKilled'',
                                   finished_at = Some 89000000000\<rparr>\<rparr>],
      spec_containers = [''api'']\<rparr>"

definition flapping_pod :: V1Pod where
  "flapping_pod =
     \<lparr>pod_name = ''web-0'', pod_phase = ''Running'',
      container_statuses = Some
        [\<lparr>cs_name = ''web'', restart_count = 2,
          last_terminated = Some \<lparr>term_reason = Some ''Error'',
                                   finished_at = Some 89000000000\<rparr>\<rparr>,
         \<lparr>cs_name = ''sidecar'', restart_count = 1,
          last_terminated = Some \<lparr>term_reason = None, finished_at = Some 88000000000\<rparr>\<rparr>,
         \<lparr>cs_name = ''proxy'', restart_count = 1,
          last_terminated = Some \<lparr>term_reason = Some ''Error'',
                                   finished_at = Some 89500000000\<rparr>\<rparr>],
      spec_containers = [''web'', ''sidecar'', ''proxy'']\<rparr>"

definition empty_cluster :: K8sClient where
  "empty_cluster =
     \<lparr>k8s_load_config = None,
      get_pods_for_deployment = (\<lambda>ns d. Inr []),
      list_pods = (\<lambda>ns. Inr []),
      list_namespaces = Inr [],
      list_deployments = (\<lambda>ns. Inr []),
      list_services = (\<lambda>ns. Inr []),
      list_configmaps = (\<lambda>ns. Inr []),
      list_secrets = (\<lambda>ns. Inr []),
      get_pod = (\<lambda>ns n. Inl (Exn K8sNotFoundError ''not found'')),
      get_pod_logs = (\<lambda>ns n c t s p. Inr []),
      core_list_events = (\<lambda>ns fs. Inr [])\<rparr>"

definition example_pods_client :: "V1Pod list \<Rightarrow> K8sClient" where
  "example_pods_client pods =
     empty_cluster\<lparr>get_pods_for_deployment := (\<lambda>ns d. Inr pods),
                   list_pods := (\<lambda>ns. Inr pods)\<rparr>"

definition running_pod :: V1Pod where
  "running_pod =
     \<lparr>pod_name = ''cart-0'', pod_phase = ''Running'',
      container_statuses = Some
        [\<lparr>cs_name = ''cart'', restart_count = 0, last_terminated = None\<rparr>],
      spec_containers = [''cart'']\<rparr>"

definition pending_pod :: V1Pod where
  "pending_pod =
     \<lparr>pod_name = ''cart-1'', pod_phase = ''Pending'',
      container_statuses = None,
      spec_containers = [''cart'']\<rparr>"

definition shop_cluster :: K8sClient where
  "shop_cluster =
     empty_cluster
       \<lparr>list_pods := (\<lambda>ns. if ns = ''shop'' then Inr [running_pod, pending_pod, pending_pod]
                             else Inr []),
        list_namespaces := Inr [\<lparr>ns_name = ''shop'', ns_labels = None\<rparr>,
                                \<lparr>ns_name = ''staging'', ns_labels = None\<rparr>]\<rparr>"

definition example_limits :: "real \<Rightarrow> real \<Rightarrow> limit_lookups" where
  "example_limits cpu mem =
     \<lparr>cpu_limits_map = [''api-0'' \<mapsto> cpu],
      cpu_requests_map = Map.empty,
      memory_limits_map = [''api-0'' \<mapsto> mem],
      memory_requests_map = Map.empty\<rparr>"

definition rising_samples :: "(real \<times> sample_text) list" where
  "rising_samples =
     [(0, Num 10), (60, Num 10), (120, Num 10), (180, Num 10),
      (240, Num 20), (300, Num 20), (360, Num 20), (420, Num 20)]"

definition outlier_samples :: "(real \<times> sample_text) list" where
  "outlier_samples =
     [(0, Num 0), (60, Num 0), (120, Num 0), (180, Num 0), (240, Num 0), (300, Num 100)]"

definition gap_samples :: "(real \<times> sample_text) list" where
  "gap_samples =
     [(0, NaN), (60, Num 0), (120, Num 0), (180, Num 0), (240, Num 0), (300, Num 0),
      (360, Num 100)]"

text \<open>Two equal samples, a minute apart.\<close>

definition flat_pair_samples :: "(real \<times> sample_text) list" where
  "flat_pair_samples = [(0, Num 1), (60, Num 1)]"

text \<open>Fifty-six samples, one a second: forty-five at 0, then eleven at 100.\<close>

definition spiky_samples :: "(real \<times> sample_text) list" where
  "spiky_samples =
     [(0, Num 0), (1, Num 0), (2, Num 0), (3, Num 0), (4, Num 0), (5, Num 0), (6, Num
      0), (7, Num 0), (8, Num 0), (9, Num 0), (10, Num 0), (11, Num 0), (12, Num 0),
      (13, Num 0), (14, Num 0), (15, Num 0), (16, Num 0), (17, Num 0), (18, Num 0), (19,
      Num 0), (20, Num 0), (21, Num 0), (22, Num 0), (23, Num 0), (24, Num 0), (25, Num
      0), (26, Num 0), (27, Num 0), (28, Num 0), (29, Num 0), (30, Num 0), (31, Num 0),
      (32, Num 0), (33, Num 0), (34, Num 0), (35, Num 0), (36, Num 0), (37, Num 0), (38,
      Num 0), (39, Num 0), (40, Num 0), (41, Num 0), (42, Num 0), (43, Num 0), (44, Num
      0), (45, Num 100), (46, Num 100), (47, Num 100), (48, Num 100), (49, Num 100),
      (50, Num 100), (51, Num 100), (52, Num 100), (53, Num 100), (54, Num 100), (55,
      Num 100)]"

definition example_prom :: "(real \<times> sample_text) list \<Rightarrow> PrometheusClient" where
  "example_prom samples =
     \<lparr>get_container_cpu_usage = (\<lambda>ns d. Inr []),
      get_container_memory_usage = (\<lambda>ns d. Inr []),
      get_resource_limits = (\<lambda>ns d. Inr \<lparr>cpu_requests = [], cpu_limits = [],
                                           memory_requests = [], memory_limits = []\<rparr>),
      query_range = (\<lambda>q s e. Inr [\<lparr>series_samples = samples\<rparr>])\<rparr>"



text \<open>A cluster in which \<^verbatim>\<open>web-0\<close> has three containers and \<^verbatim>\<open>cart-0\<close> has one.\<close>

definition logs_cluster :: K8sClient where
  "logs_cluster =
     empty_cluster
       \<lparr>get_pod := (\<lambda>ns n. if n = ''web-0'' then Inr flapping_pod
                           else if n = ''cart-0'' then Inr running_pod
                           else Inl (Exn K8sNotFoundError ''not found'')),
        get_pod_logs := (\<lambda>ns n c t s p. Inr (''started'' @ newline @ ''ready''))\<rparr>"

definition example_settings :: "int \<Rightarrow> Settings" where
  "example_settings cap = \<lparr>max_log_lines = 100, max_events = cap, max_timeseries_points = 100\<rparr>"

section \<open>Properties of the envelope and the handler\<close>

text \<open>
  C1 does not hold of the code. Whatever exception the body of a wrapped operation
  raises, every \<^verbatim>\<open>except\<close> clause of the handler calls \<^verbatim>\<open>ToolResponse.error\<close>,
  and that call raises \<^verbatim>\<open>AttributeError: error\<close>: the wrapped call returns no
  envelope, and the \<^verbatim>\<open>AttributeError\<close> leaves the handler in place of the error
  envelope the clause was written to return.
\<close>

theorem tool_handler_raises_attribute_error:
  "tool_handler s t (Inl e :: exn + 'r ToolResponse)
   = Inl (Exn (OtherException ''AttributeError'') ''error'')"
  by (simp add: tool_handler_def ToolResponse_error_def)

text \<open>
  The envelope the classmethod \<^verbatim>\<open>error\<close> was written to build: status error, the
  message, no result and no warnings, and the kind tag under \<^verbatim>\<open>error_type\<close>.
\<close>

lemma error_classmethod_body_envelope:
  "status (error_classmethod_body msg ty meta) = ERROR"
  "error (error_classmethod_body msg ty meta) = Message msg"
  "result (error_classmethod_body msg ty meta) = None"
  "warnings (error_classmethod_body msg ty meta) = []"
  "metadata (error_classmethod_body msg (Some (c # cs)) meta) ''error_type''
   = Some (MStr (c # cs))"
  by (simp_all add: error_classmethod_body_def)

text \<open>An envelope the body returns passes through the handler with its payload.\<close>

lemma tool_handler_keeps_result:
  "\<exists>env. tool_handler s t (Inr r) = Inr env \<and> result env = result r
         \<and> status env = status r \<and> warnings env = warnings r \<and> error env = error r"
  by (simp add: tool_handler_def)

lemma tool_handler_Inr:
  "tool_handler s t (Inr r) = Inr env \<Longrightarrow>
     result env = result r \<and> status env = status r \<and> warnings env = warnings r
     \<and> error env = error r"
  by (auto simp add: tool_handler_def)




section \<open>Properties of analyze_restart_patterns\<close>

lemmas parse_defs = parse_duration_def py_lower_def py_strip_def py_lower_char_def
  py_isspace_def endswith_def py_int_def valid_int_body_def is_digit_def decimal_def
  digit_val_def

lemma parse_duration_24h: "parse_duration ''24h'' = Inr 86400"
  by (simp add: parse_defs)

lemma length_slice_from_neg:
  "0 < k \<Longrightarrow> length (slice_from (- int k) xs) = min k (length xs)"
  by (auto simp add: slice_from_def)

lemma length_sorted_restart_times: "length (sorted_restart_times ts) = length ts"
  by (simp add: sorted_restart_times_def)

lemma analyze_body_Inr:
  assumes "analyze_restart_patterns_body rnd k8s clk ns dep period = Inr r"
  shows "\<exists>pods secs cutoff.
           parse_duration period = Inr secs \<and> minus_seconds (now_utc clk) secs = Inr cutoff
           \<and> result r = Some (restart_analysis_of rnd pods secs cutoff)"
  using assms
  unfolding analyze_restart_patterns_body_def
  by (auto simp add: ToolResponse_success_def split: option.splits sum.splits if_splits)

lemma analyze_returns:
  assumes "analyze_restart_patterns_body rnd k8s clk ns dep period = Inr r"
  shows "\<exists>env. analyze_restart_patterns rnd k8s clk ns dep period = Inr env
           \<and> result env = result r"
  using tool_handler_keeps_result [of "wrapper_start clk" "wrapper_end clk" r]
  by (auto simp add: analyze_restart_patterns_def assms)

lemma example_body_24h:
  "analyze_restart_patterns_body rnd (example_pods_client pods) example_clock ''prod'' None
     ''24h''
   = Inr (ToolResponse_success (Some (restart_analysis_of rnd pods 86400 3600000002))
       (Some (add_execution_metadata (restart_metadata ''prod'' None ''24h'')
                90000000001 90000000003 Map.empty)) None)"
  by (simp add: analyze_restart_patterns_body_def example_pods_client_def empty_cluster_def
      parse_duration_24h
      example_clock_def minus_seconds_def datetime_max_def)

lemma example_result_24h:
  assumes "analyze_restart_patterns rnd (example_pods_client pods) example_clock ''prod'' None
             ''24h'' = Inr env"
  shows "result env = Some (restart_analysis_of rnd pods 86400 3600000002)"
  using assms tool_handler_Inr [of _ _ _ env]
  by (auto simp add: analyze_restart_patterns_def example_body_24h ToolResponse_success_def)

text \<open>
  C7. Whenever the body of analyze_restart_patterns returns its analysis, the call
  returns an envelope with that analysis, and the severity is decided by the total
  restart count and the restart rate (total restarts per hour of the lookback period):
  none for 0 restarts; otherwise low below 0.5, medium below 2, high below 6, critical
  from 6 on. A rate of exactly 2 is high.
\<close>

theorem restart_severity_thresholds:
  assumes "analyze_restart_patterns_body rnd k8s clk ns dep period = Inr r"
      and "parse_duration period = Inr secs"
  shows "\<exists>env a. analyze_restart_patterns rnd k8s clk ns dep period = Inr env
           \<and> result env = Some a
           \<and> (total_restarts (pattern a) = 0 \<longrightarrow> severity a = ''none'')
           \<and> (total_restarts (pattern a) \<noteq> 0
                \<and> restart_rate (total_restarts (pattern a)) secs < 1/2
                \<longrightarrow> severity a = ''low'')
           \<and> (total_restarts (pattern a) \<noteq> 0
                \<and> 1/2 \<le> restart_rate (total_restarts (pattern a)) secs
                \<and> restart_rate (total_restarts (pattern a)) secs < 2
                \<longrightarrow> severity a = ''medium'')
           \<and> (total_restarts (pattern a) \<noteq> 0
                \<and> 2 \<le> restart_rate (total_restarts (pattern a)) secs
                \<and> restart_rate (total_restarts (pattern a)) secs < 6
                \<longrightarrow> severity a = ''high'')
           \<and> (total_restarts (pattern a) \<noteq> 0
                \<and> 6 \<le> restart_rate (total_restarts (pattern a)) secs
                \<longrightarrow> severity a = ''critical'')
           \<and> (total_restarts (pattern a) \<noteq> 0
                \<and> restart_rate (total_restarts (pattern a)) secs = 2
                \<longrightarrow> severity a = ''high'')"
proof -
  from analyze_body_Inr [OF assms(1)] assms(2)
  obtain pods cutoff where r: "result r = Some (restart_analysis_of rnd pods secs cutoff)"
    by auto
  define a where "a = restart_analysis_of rnd pods secs cutoff"
  have sev: "severity a = severity_of (total_restarts (pattern a))
                (restart_rate (total_restarts (pattern a)) secs)"
    by (simp add: a_def restart_analysis_of_def Let_def)
  from analyze_returns [OF assms(1)]
  obtain env where env: "analyze_restart_patterns rnd k8s clk ns dep period = Inr env"
    and res: "result env = Some a"
    by (auto simp add: r a_def)
  show ?thesis
    by (intro exI [of _ env] exI [of _ a]) (simp add: env res sev severity_of_def)
qed

theorem restart_severity_thresholds_witness:
  "parse_duration ''24h'' = Inr 86400
   \<and> restart_rate 48 86400 = 2
   \<and> (\<exists>env a. analyze_restart_patterns nearest_even (example_pods_client [crashing_pod])
                      example_clock ''prod'' None ''24h'' = Inr env
          \<and> result env = Some a
          \<and> total_restarts (pattern a) = 48
          \<and> severity a = ''high'')"
proof -
  have tot: "total_restarts (pattern (restart_analysis_of nearest_even [crashing_pod] 86400
               3600000002)) = 48"
    by (simp add: restart_analysis_of_def Let_def scan_pods_def scan_pod_def scan_status_def
        crashing_pod_def)
  have rate: "restart_rate 48 86400 = 2"
    by (simp add: restart_rate_def)
  from restart_severity_thresholds [OF example_body_24h parse_duration_24h,
         of nearest_even "[crashing_pod]"]
  obtain env a where env: "analyze_restart_patterns nearest_even (example_pods_client [crashing_pod])
                        example_clock ''prod'' None ''24h'' = Inr env"
    and a: "result env = Some a"
    and high: "total_restarts (pattern a) \<noteq> 0
                \<and> restart_rate (total_restarts (pattern a)) 86400 = 2
                \<longrightarrow> severity a = ''high''"
    by (elim exE conjE)
  from example_result_24h [OF env] a
  have eq: "a = restart_analysis_of nearest_even [crashing_pod] 86400 3600000002"
    by simp
  with tot rate high have "severity a = ''high''" by simp
  with env a eq tot rate parse_duration_24h show ?thesis by blast
qed

text \<open>
  C10. Whenever the body of analyze_restart_patterns returns its analysis, the call
  returns an envelope with that analysis, and when exactly 3 restart timestamps fall
  within the lookback window (the reported list, which keeps up to 20 of them, then has
  3 entries), pattern_detected is None; a pattern is only reported when at least 4
  restart timestamps are present.
\<close>

theorem three_restart_times_no_pattern:
  assumes "analyze_restart_patterns_body rnd k8s clk ns dep period = Inr r"
  shows "\<exists>env a. analyze_restart_patterns rnd k8s clk ns dep period = Inr env
           \<and> result env = Some a
           \<and> (length (restart_times (pattern a)) = 3 \<longrightarrow> pattern_detected (pattern a) = None)
           \<and> (pattern_detected (pattern a) \<noteq> None
                \<longrightarrow> 4 \<le> length (restart_times (pattern a)))"
proof -
  from analyze_body_Inr [OF assms]
  obtain pods secs cutoff where r: "result r = Some (restart_analysis_of rnd pods secs cutoff)"
    by auto
  define a where "a = restart_analysis_of rnd pods secs cutoff"
  define ts where "ts = scan_restart_times (scan_pods cutoff pods)"
  have rt: "restart_times (pattern a) = slice_from (-20) (sorted_restart_times ts)"
    and pd: "pattern_detected (pattern a) = detect_pattern rnd ts"
    by (simp_all add: a_def ts_def restart_analysis_of_def Let_def)
  have len: "length (restart_times (pattern a)) = min 20 (length ts)"
    using length_slice_from_neg [of 20 "sorted_restart_times ts"]
    by (simp add: rt length_sorted_restart_times)
  from analyze_returns [OF assms]
  obtain env where env: "analyze_restart_patterns rnd k8s clk ns dep period = Inr env"
    and res: "result env = Some a"
    by (auto simp add: r a_def)
  have "length (restart_times (pattern a)) = 3 \<longrightarrow> pattern_detected (pattern a) = None"
    using len by (auto simp add: pd detect_pattern_def Let_def)
  moreover have "pattern_detected (pattern a) \<noteq> None
                   \<longrightarrow> 4 \<le> length (restart_times (pattern a))"
    using len by (auto simp add: pd detect_pattern_def Let_def split: if_splits)
  ultimately show ?thesis using env res by blast
qed

theorem three_restart_times_no_pattern_witness:
  "\<exists>env a. analyze_restart_patterns nearest_even (example_pods_client [flapping_pod])
                  example_clock ''prod'' None ''24h'' = Inr env
        \<and> result env = Some a
        \<and> restart_times (pattern a) = [88000000000, 89000000000, 89500000000]
        \<and> total_restarts (pattern a) = 4
        \<and> pattern_detected (pattern a) = None"
proof -
  have rt: "restart_times (pattern (restart_analysis_of nearest_even [flapping_pod] 86400
              3600000002))
              = [88000000000, 89000000000, 89500000000]"
    by (simp add: restart_analysis_of_def Let_def scan_pods_def scan_pod_def scan_status_def
        flapping_pod_def sorted_restart_times_def slice_from_def counter_add_def)
  have tot: "total_restarts (pattern (restart_analysis_of nearest_even [flapping_pod] 86400
               3600000002)) = 4"
    by (simp add: restart_analysis_of_def Let_def scan_pods_def scan_pod_def scan_status_def
        flapping_pod_def)
  from three_restart_times_no_pattern [OF example_body_24h, of nearest_even "[flapping_pod]"]
  obtain env a where env: "analyze_restart_patterns nearest_even (example_pods_client [flapping_pod])
                        example_clock ''prod'' None ''24h'' = Inr env"
    and a: "result env = Some a"
    and none: "length (restart_times (pattern a)) = 3 \<longrightarrow> pattern_detected (pattern a) = None"
    by (elim exE conjE)
  from example_result_24h [OF env] a
  have eq: "a = restart_analysis_of nearest_even [flapping_pod] 86400 3600000002"
    by simp
  with rt none have "pattern_detected (pattern a) = None" by simp
  with env a eq rt tot show ?thesis by blast
qed

section \<open>Properties of the rounding\<close>

lemma round_half_even_near: "\<bar>real_of_int (round_half_even y) - y\<bar> \<le> 1/2"
proof -
  have "0 \<le> y - of_int \<lfloor>y\<rfloor>" "y - of_int \<lfloor>y\<rfloor> < 1" by linarith+
  then show ?thesis
    by (auto simp add: round_half_even_def Let_def abs_le_iff)
qed

lemma nearest_even_rounds_to_nearest: "rounds_to_nearest nearest_even"
proof -
  have "\<bar>nearest_even x n - x\<bar> \<le> 1 / (2 * 10 ^ n)" for x n
  proof -
    have pos: "(0::real) < 10 ^ n" by simp
    have "nearest_even x n - x = (real_of_int (round_half_even (x * 10 ^ n)) - x * 10 ^ n) / 10 ^ n"
      by (simp add: nearest_even_def diff_divide_distrib)
    then have "\<bar>nearest_even x n - x\<bar>
               = \<bar>real_of_int (round_half_even (x * 10 ^ n)) - x * 10 ^ n\<bar> / 10 ^ n"
      by (simp add: abs_divide del: of_int_diff)
    also have "\<dots> \<le> (1/2) / 10 ^ n"
      using round_half_even_near [of "x * 10 ^ n"] pos by (intro divide_right_mono) simp_all
    finally show ?thesis by simp
  qed
  moreover have "\<exists>k::int. nearest_even x n = of_int k / 10 ^ n" for x n
    by (auto simp add: nearest_even_def)
  ultimately show ?thesis by (simp add: rounds_to_nearest_def)
qed

lemma rounds_to_nearest_multiple:
  "rounds_to_nearest rnd \<Longrightarrow> \<exists>k::int. rnd x n = of_int k / 10 ^ n"
  by (simp add: rounds_to_nearest_def)

lemma rounds_to_nearest_near:
  "rounds_to_nearest rnd \<Longrightarrow> \<bar>rnd x n - x\<bar> \<le> 1 / (2 * 10 ^ n)"
  by (simp add: rounds_to_nearest_def)

text \<open>
  A value that is within half a unit of the last digit of one multiple only is rounded
  to that multiple by every rounding to nearest.
\<close>

lemma rounds_to_nearest_unique:
  assumes "rounds_to_nearest rnd"
      and "\<bar>real_of_int m - x * 10 ^ n\<bar> < 1/2"
  shows "rnd x n = of_int m / 10 ^ n"
proof -
  from rounds_to_nearest_multiple [OF assms(1)] obtain k :: int
    where k: "rnd x n = of_int k / 10 ^ n" by blast
  have pos: "(0::real) < 10 ^ n" by simp
  have "\<bar>of_int k / 10 ^ n - x\<bar> \<le> 1 / (2 * 10 ^ n)"
    using rounds_to_nearest_near [OF assms(1), of x n] by (simp add: k)
  then have "\<bar>of_int k / 10 ^ n - x\<bar> * 10 ^ n \<le> 1 / (2 * 10 ^ n) * 10 ^ n"
    using pos by (intro mult_right_mono) simp_all
  moreover have "\<bar>of_int k / 10 ^ n - x\<bar> * 10 ^ n = \<bar>real_of_int k - x * 10 ^ n\<bar>"
  proof -
    have "\<bar>of_int k / 10 ^ n - x\<bar> * 10 ^ n = \<bar>(of_int k / 10 ^ n - x) * 10 ^ n\<bar>"
      by (simp add: abs_mult)
    also have "(of_int k / 10 ^ n - x) * 10 ^ n = real_of_int k - x * 10 ^ n"
      by (simp add: left_diff_distrib)
    finally show ?thesis .
  qed
  ultimately have "\<bar>real_of_int k - x * 10 ^ n\<bar> \<le> 1/2" by simp
  with assms(2) have "\<bar>real_of_int k - real_of_int m\<bar> < 1" by linarith
  then have "k = m" by linarith
  then show ?thesis by (simp add: k)
qed

lemma rounds_to_nearest_unit_interval:
  assumes "rounds_to_nearest rnd" "0 \<le> x" "x \<le> 1"
  shows "0 \<le> rnd x 2" "rnd x 2 \<le> 1"
proof -
  from rounds_to_nearest_multiple [OF assms(1)] obtain k :: int
    where k: "rnd x 2 = of_int k / 10 ^ 2" by blast
  have near: "\<bar>real_of_int k / 100 - x\<bar> \<le> 1 / 200"
    using rounds_to_nearest_near [OF assms(1), of x 2] by (simp add: k)
  from near assms(2,3) have "- 1 < real_of_int k" "real_of_int k < 101" by linarith+
  then have "0 \<le> k" "k \<le> 100" by linarith+
  then have "0 \<le> real_of_int k" "real_of_int k \<le> 100" by linarith+
  then show "0 \<le> rnd x 2" "rnd x 2 \<le> 1" by (simp_all add: k)
qed

section \<open>Properties of get_namespace_summary\<close>

lemma count_running_le: "count_running pods \<le> length pods"
  by (simp add: count_running_def)

lemma compute_health_score_bounds:
  assumes "n_running \<le> n_pods"
  shows "0 \<le> compute_health_score n_pods n_running n_restarts"
    and "compute_health_score n_pods n_running n_restarts \<le> 1"
proof -
  show "0 \<le> compute_health_score n_pods n_running n_restarts"
    by (simp add: compute_health_score_def Let_def)
  show "compute_health_score n_pods n_running n_restarts \<le> 1"
  proof (cases "0 < n_pods")
    case True
    then have "real n_running / real n_pods \<le> 1"
      using assms by simp
    moreover have "0 \<le> min 1 (real n_restarts * (5/100))" by simp
    ultimately have "real n_running / real n_pods - min 1 (real n_restarts * (5/100)) \<le> 1"
      by linarith
    with True show ?thesis
      by (simp add: compute_health_score_def Let_def del: of_nat_mult)
  next
    case False
    then show ?thesis by (simp add: compute_health_score_def)
  qed
qed

lemma summarize_namespace_ok:
  "summarize_namespace rnd k8s ns = Inr s \<Longrightarrow> summary_ok rnd s"
  by (auto simp add: summarize_namespace_def summary_ok_def count_running_le split: sum.splits)

lemma summarize_all_ok:
  "summarize_all rnd k8s nss = Inr ss \<Longrightarrow> list_all (summary_ok rnd) ss"
proof (induction nss arbitrary: ss)
  case Nil
  then show ?case by simp
next
  case (Cons ns rest)
  then show ?case
    by (auto split: sum.splits dest: summarize_namespace_ok)
qed

lemma namespace_body_Inr:
  assumes "get_namespace_summary_body rnd k8s clk namespace = Inr r"
  shows "\<exists>rep. result r = Some rep \<and> list_all (summary_ok rnd) (namespaces rep)"
  using assms
  by (auto simp add: get_namespace_summary_body_def ToolResponse_success_def
      split: option.splits sum.splits if_splits dest: summarize_all_ok)

lemma namespace_returns:
  assumes "get_namespace_summary_body rnd k8s clk namespace = Inr r"
  shows "\<exists>env. get_namespace_summary rnd k8s clk namespace = Inr env
           \<and> result env = result r"
  using tool_handler_keeps_result [of "wrapper_start clk" "wrapper_end clk" r]
  by (auto simp add: get_namespace_summary_def assms)

lemma shop_summaries:
  "summarize_all nearest_even shop_cluster [''shop''] =
     Inr [\<lparr>summary_name = ''shop'', pod_count = 3, running_pods = 1, deployment_count = 0,
           service_count = 0, configmap_count = 0, secret_count = 0, ns_total_restarts = 0,
           health_score = 33/100, labels = Map.empty\<rparr>]"
  by (simp add: summarize_namespace_def shop_cluster_def empty_cluster_def running_pod_def
      pending_pod_def count_running_def sum_restarts_def compute_health_score_def
      nearest_even_def round_half_even_def labels_of_def)

lemma staging_summaries:
  "summarize_all nearest_even shop_cluster [''staging''] =
     Inr [\<lparr>summary_name = ''staging'', pod_count = 0, running_pods = 0, deployment_count = 0,
           service_count = 0, configmap_count = 0, secret_count = 0, ns_total_restarts = 0,
           health_score = 1, labels = Map.empty\<rparr>]"
  by (simp add: summarize_namespace_def shop_cluster_def empty_cluster_def
      count_running_def sum_restarts_def compute_health_score_def
      nearest_even_def round_half_even_def labels_of_def)

lemma shop_body:
  "get_namespace_summary_body nearest_even shop_cluster example_clock (Some ''shop'') =
     Inr (ToolResponse_success
       (Some \<lparr>namespaces = [\<lparr>summary_name = ''shop'', pod_count = 3, running_pods = 1,
           deployment_count = 0, service_count = 0, configmap_count = 0, secret_count = 0,
           ns_total_restarts = 0, health_score = 33/100, labels = Map.empty\<rparr>],
          total_namespaces = 1, cluster_health_score = 33/100\<rparr>)
       (Some (add_execution_metadata [''namespace'' \<mapsto> MStr ''shop'']
                90000000001 90000000003 Map.empty)) None)"
proof -
  have cfg: "k8s_load_config shop_cluster = None"
    by (simp add: shop_cluster_def empty_cluster_def)
  show ?thesis
    by (simp add: get_namespace_summary_body_def cfg shop_summaries cluster_health_of_def
        example_clock_def nearest_even_def round_half_even_def del: summarize_all.simps)
qed

lemma staging_body:
  "get_namespace_summary_body nearest_even shop_cluster example_clock (Some ''staging'') =
     Inr (ToolResponse_success
       (Some \<lparr>namespaces = [\<lparr>summary_name = ''staging'', pod_count = 0, running_pods = 0,
           deployment_count = 0, service_count = 0, configmap_count = 0, secret_count = 0,
           ns_total_restarts = 0, health_score = 1, labels = Map.empty\<rparr>],
          total_namespaces = 1, cluster_health_score = 1\<rparr>)
       (Some (add_execution_metadata [''namespace'' \<mapsto> MStr ''staging'']
                90000000001 90000000003 Map.empty)) None)"
proof -
  have cfg: "k8s_load_config shop_cluster = None"
    by (simp add: shop_cluster_def empty_cluster_def)
  show ?thesis
    by (simp add: get_namespace_summary_body_def cfg staging_summaries cluster_health_of_def
        example_clock_def nearest_even_def round_half_even_def del: summarize_all.simps)
qed

text \<open>
  Every rounding to nearest takes 1/3 to 0.33 at two digits: the value of the example
  below does not depend on how ties are broken.
\<close>

lemma third_rounds_to_033:
  "rounds_to_nearest rnd \<Longrightarrow> rnd (1/3) 2 = 33/100"
  using rounds_to_nearest_unique [of rnd 33 "1/3" 2] by simp

text \<open>
  C8 as stated fails: the summary stores \<^verbatim>\<open>round(health_score, 2)\<close>. A namespace
  with three pods, one of them running, and no restarts reports 0.33, not 1/3.
\<close>

theorem reported_health_score_counterexample:
  "map_option (map health_score \<circ> namespaces)
     (returned_result (get_namespace_summary nearest_even shop_cluster example_clock
        (Some ''shop''))) = Some [33/100]
   \<and> map_option (map pod_count \<circ> namespaces)
     (returned_result (get_namespace_summary nearest_even shop_cluster example_clock
        (Some ''shop''))) = Some [3]
   \<and> map_option (map running_pods \<circ> namespaces)
     (returned_result (get_namespace_summary nearest_even shop_cluster example_clock
        (Some ''shop''))) = Some [1]
   \<and> map_option (map ns_total_restarts \<circ> namespaces)
     (returned_result (get_namespace_summary nearest_even shop_cluster example_clock
        (Some ''shop''))) = Some [0]
   \<and> max 0 (real 1 / real 3 - min 1 (real 0 * (5/100))) \<noteq> (33/100 :: real)"
  by (simp add: get_namespace_summary_def shop_body tool_handler_def ToolResponse_success_def
      returned_result_def)

text \<open>
  C8, amended. For every namespace summary the tool returns, the health score is a
  multiple of 0.01 within 0.005 of max(0, running_ratio - min(1.0, total_restarts *
  0.05)), where running_ratio = running_pods / total_pods and a namespace with zero pods
  takes the value 1.0; so 0 \<le> health_score \<le> 1 always holds, and a namespace with zero
  pods scores exactly 1.0. This holds for every rounding to nearest in the place of
  \<^verbatim>\<open>round\<close>.
\<close>

theorem namespace_health_score_rounded:
  assumes "rounds_to_nearest rnd"
      and "get_namespace_summary_body rnd k8s clk namespace = Inr r"
  shows "\<exists>env rep. get_namespace_summary rnd k8s clk namespace = Inr env
           \<and> result env = Some rep
           \<and> (\<forall>s \<in> set (namespaces rep).
                 (\<exists>k::int. health_score s = of_int k / 100)
                 \<and> \<bar>health_score s
                     - (if pod_count s = 0 then 1
                        else max 0 (real (running_pods s) / real (pod_count s)
                                    - min 1 (real (ns_total_restarts s) * (5/100))))\<bar>
                   \<le> 1/200
                 \<and> 0 \<le> health_score s \<and> health_score s \<le> 1
                 \<and> (pod_count s = 0 \<longrightarrow> health_score s = 1))"
proof -
  from namespace_body_Inr [OF assms(2)] obtain rep
    where rep: "result r = Some rep" and ok: "list_all (summary_ok rnd) (namespaces rep)"
    by blast
  from namespace_returns [OF assms(2)] obtain env
    where env: "get_namespace_summary rnd k8s clk namespace = Inr env"
      and res: "result env = Some rep"
    by (auto simp add: rep)
  have "(\<exists>k::int. health_score s = of_int k / 100)
        \<and> \<bar>health_score s
            - (if pod_count s = 0 then 1
               else max 0 (real (running_pods s) / real (pod_count s)
                           - min 1 (real (ns_total_restarts s) * (5/100))))\<bar> \<le> 1/200
        \<and> 0 \<le> health_score s \<and> health_score s \<le> 1
        \<and> (pod_count s = 0 \<longrightarrow> health_score s = 1)"
    if "s \<in> set (namespaces rep)" for s
  proof -
    define f where "f = compute_health_score (pod_count s) (running_pods s)
                          (ns_total_restarts s)"
    from ok that have s: "summary_ok rnd s" by (simp add: list_all_iff)
    then have le: "running_pods s \<le> pod_count s"
      and hs: "health_score s = rnd f 2"
      by (simp_all add: summary_ok_def f_def)
    have f: "f = (if pod_count s = 0 then 1
                  else max 0 (real (running_pods s) / real (pod_count s)
                              - min 1 (real (ns_total_restarts s) * (5/100))))"
      by (simp add: f_def compute_health_score_def Let_def)
    have bounds: "0 \<le> f" "f \<le> 1"
      using compute_health_score_bounds [OF le] by (simp_all add: f_def)
    have "\<exists>k::int. health_score s = of_int k / 100"
      using rounds_to_nearest_multiple [OF assms(1), of f 2] by (simp add: hs)
    moreover have "\<bar>health_score s - f\<bar> \<le> 1/200"
      using rounds_to_nearest_near [OF assms(1), of f 2] by (simp add: hs)
    moreover have "0 \<le> health_score s" "health_score s \<le> 1"
      using rounds_to_nearest_unit_interval [OF assms(1) bounds] by (simp_all add: hs)
    moreover have "pod_count s = 0 \<longrightarrow> health_score s = 1"
    proof
      assume "pod_count s = 0"
      then have "f = 1" by (simp add: f)
      then show "health_score s = 1"
        using rounds_to_nearest_unique [OF assms(1), of 100 1 2] by (simp add: hs)
    qed
    ultimately show ?thesis unfolding f [symmetric] by blast
  qed
  with env res show ?thesis by blast
qed

theorem namespace_health_score_rounded_witness:
  "rounds_to_nearest nearest_even
   \<and> map_option (map pod_count \<circ> namespaces)
     (returned_result (get_namespace_summary nearest_even shop_cluster example_clock
        (Some ''staging''))) = Some [0]
   \<and> map_option (map health_score \<circ> namespaces)
     (returned_result (get_namespace_summary nearest_even shop_cluster example_clock
        (Some ''staging''))) = Some [1]
   \<and> map_option (map health_score \<circ> namespaces)
     (returned_result (get_namespace_summary nearest_even shop_cluster example_clock
        (Some ''shop''))) = Some [33/100]
   \<and> \<bar>33/100 - max 0 (real 1 / real 3 - min 1 (real 0 * (5/100)))\<bar> \<le> (1/200 :: real)"
  using namespace_health_score_rounded [OF nearest_even_rounds_to_nearest staging_body]
        namespace_health_score_rounded [OF nearest_even_rounds_to_nearest shop_body]
  by (simp add: get_namespace_summary_def shop_body staging_body tool_handler_def
      ToolResponse_success_def returned_result_def nearest_even_rounds_to_nearest)

section \<open>Properties of get_current_resource_usage\<close>

lemma percent_of_limit_total:
  "\<exists>p. percent_of_limit used limit = Inr p
       \<and> (limit = None \<longrightarrow> p = None)
       \<and> (\<forall>l. limit = Some l \<and> l \<le> 0 \<longrightarrow> p = None)
       \<and> (\<forall>l. limit = Some l \<and> 0 < l \<longrightarrow> p = Some (used / l * 100))"
  by (cases limit) (auto simp add: percent_of_limit_def py_truediv_def)

lemma pod_usage_Inr:
  assumes "percent_of_limit (case cpu_usage d of None \<Rightarrow> 0 | Some v \<Rightarrow> v)
             (cpu_limits_map lk pod) = Inr cp"
      and "percent_of_limit (real_of_int (case memory_usage d of None \<Rightarrow> 0 | Some v \<Rightarrow> v))
             (memory_limits_map lk pod) = Inr mp"
  shows "\<exists>u al. pod_usage rnd ns lk (pod, d) = Inr (u, al)
           \<and> cpu_usage_percent u = round_if_truthy rnd cp 1
           \<and> memory_usage_percent u = round_if_truthy rnd mp 1"
  using assms by (simp add: pod_usage_def Let_def)

lemma pod_usage_total: "\<exists>u al. pod_usage rnd ns lk (pod, d) = Inr (u, al)"
proof -
  obtain cp where cp: "percent_of_limit (case cpu_usage d of None \<Rightarrow> 0 | Some v \<Rightarrow> v)
                         (cpu_limits_map lk pod) = Inr cp"
    using percent_of_limit_total
            [of "case cpu_usage d of None \<Rightarrow> 0 | Some v \<Rightarrow> v" "cpu_limits_map lk pod"]
    by (elim exE conjE)
  obtain mp where mp: "percent_of_limit
                         (real_of_int (case memory_usage d of None \<Rightarrow> 0 | Some v \<Rightarrow> v))
                         (memory_limits_map lk pod) = Inr mp"
    using percent_of_limit_total
            [of "real_of_int (case memory_usage d of None \<Rightarrow> 0 | Some v \<Rightarrow> v)"
                "memory_limits_map lk pod"]
    by (elim exE conjE)
  from pod_usage_Inr [OF cp mp, of rnd ns] show ?thesis by (elim exE conjE) (intro exI)
qed

text \<open>
  The loop over the pods never stops on an exception: no division by zero is reached.
\<close>

lemma usage_loop_total: "\<exists>us als. usage_loop rnd ns lk entries = Inr (us, als)"
proof (induction entries)
  case Nil
  show ?case by simp
next
  case (Cons entry rest)
  obtain pod d where e: "entry = (pod, d)" by (cases entry)
  from pod_usage_total [of rnd ns lk pod d] obtain u al
    where "pod_usage rnd ns lk (pod, d) = Inr (u, al)" by (elim exE conjE)
  with Cons e show ?case by auto
qed

lemmas usage_defs = pod_usage_def percent_of_limit_def py_truediv_def round_if_truthy_def
  int_if_truthy_def nearest_even_def round_half_even_def example_limits_def is_cpu_throttled_def
  is_memory_pressure_def py_int_of_float_def

text \<open>
  C5 as stated fails where a limit is configured: a CPU limit of 3 cores with 1 core used
  is reported as 33.3, the percentage rounded to one decimal (every rounding to nearest
  gives 33.3 here), not as 100/3; and a
  configured memory limit of 0 gives None, since the guard \<^verbatim>\<open>limit > 0\<close> keeps the
  division away from it.
\<close>

theorem configured_limit_percent_counterexample:
  "pod_usage nearest_even ''prod'' (example_limits 3 0)
     (''api-0'', \<lparr>cpu_usage = Some 1, memory_usage = Some 1048576\<rparr>)
   = Inr (\<lparr>ru_pod_name = ''api-0'', ru_namespace = ''prod'', cpu_usage_cores = 1,
           cpu_usage_percent = Some (333/10), cpu_request_cores = None,
           cpu_limit_cores = Some 3, memory_usage_bytes = 1048576, memory_usage_mb = 1,
           memory_usage_percent = None, memory_request_bytes = None,
           memory_limit_bytes = None\<rparr>, [])
   \<and> cpu_limits_map (example_limits 3 0) ''api-0'' = Some 3
   \<and> memory_limits_map (example_limits 3 0) ''api-0'' = Some 0
   \<and> (333/10 :: real) \<noteq> 1 / 3 * 100"
  by (simp add: usage_defs Let_def)

text \<open>
  Besides, the test \<^verbatim>\<open>round(cpu_percent, 1) if cpu_percent else None\<close> is also false
  for a percentage of 0: a pod that uses no CPU under a limit of 2 cores reports no
  percentage, although the field is documented as set whenever the limit is.
\<close>

lemma zero_usage_reports_no_percent:
  "pod_usage nearest_even ''prod'' (example_limits 2 4194304)
     (''api-0'', \<lparr>cpu_usage = Some 0, memory_usage = Some 1048576\<rparr>)
   = Inr (\<lparr>ru_pod_name = ''api-0'', ru_namespace = ''prod'', cpu_usage_cores = 0,
           cpu_usage_percent = None, cpu_request_cores = None,
           cpu_limit_cores = Some 2, memory_usage_bytes = 1048576, memory_usage_mb = 1,
           memory_usage_percent = Some 25, memory_request_bytes = None,
           memory_limit_bytes = Some 4194304\<rparr>, [])"
  by (simp add: usage_defs Let_def)

text \<open>
  C5, amended. For every per-pod percent-of-limit computation in
  get_current_resource_usage (cpu_usage_percent and memory_usage_percent): the
  computation returns a usage record, so it never divides by zero; the result is None
  when no limit is configured for the pod or the configured limit is not positive; and
  when the limit is positive and the usage is not zero, the result is a numeric value, a
  multiple of 0.1 within 0.05 of usage/limit * 100. This holds for every rounding to
  nearest in the place of \<^verbatim>\<open>round\<close>.
\<close>

theorem percent_of_limit_by_design:
  assumes "rounds_to_nearest rnd"
  shows "\<exists>u al. pod_usage rnd ns lk (pod, d) = Inr (u, al)
     \<and> (cpu_limits_map lk pod = None \<longrightarrow> cpu_usage_percent u = None)
     \<and> (\<forall>l. cpu_limits_map lk pod = Some l \<and> l \<le> 0 \<longrightarrow> cpu_usage_percent u = None)
     \<and> (\<forall>l c. cpu_limits_map lk pod = Some l \<and> 0 < l \<and> cpu_usage d = Some c \<and> c \<noteq> 0
            \<longrightarrow> (\<exists>p. cpu_usage_percent u = Some p
                   \<and> (\<exists>k::int. p = of_int k / 10)
                   \<and> \<bar>p - c / l * 100\<bar> \<le> 1/20))
     \<and> (memory_limits_map lk pod = None \<longrightarrow> memory_usage_percent u = None)
     \<and> (\<forall>l. memory_limits_map lk pod = Some l \<and> l \<le> 0 \<longrightarrow> memory_usage_percent u = None)
     \<and> (\<forall>l m. memory_limits_map lk pod = Some l \<and> 0 < l \<and> memory_usage d = Some m \<and> m \<noteq> 0
            \<longrightarrow> (\<exists>p. memory_usage_percent u = Some p
                   \<and> (\<exists>k::int. p = of_int k / 10)
                   \<and> \<bar>p - real_of_int m / l * 100\<bar> \<le> 1/20))"
proof -
  define cu where "cu = (case cpu_usage d of None \<Rightarrow> 0 | Some v \<Rightarrow> v)"
  define mu where "mu = real_of_int (case memory_usage d of None \<Rightarrow> 0 | Some v \<Rightarrow> v)"
  have tenth: "(\<exists>k::int. rnd x 1 = of_int k / 10) \<and> \<bar>rnd x 1 - x\<bar> \<le> 1/20" for x
    using rounds_to_nearest_multiple [OF assms, of x 1] rounds_to_nearest_near [OF assms, of x 1]
    by simp
  from percent_of_limit_total [of cu "cpu_limits_map lk pod"] obtain cp where
    cp: "percent_of_limit cu (cpu_limits_map lk pod) = Inr cp"
    and cp_none: "cpu_limits_map lk pod = None \<longrightarrow> cp = None"
    and cp_le: "\<forall>l. cpu_limits_map lk pod = Some l \<and> l \<le> 0 \<longrightarrow> cp = None"
    and cp_pos: "\<forall>l. cpu_limits_map lk pod = Some l \<and> 0 < l \<longrightarrow> cp = Some (cu / l * 100)"
    by (elim exE conjE)
  from percent_of_limit_total [of mu "memory_limits_map lk pod"] obtain mp where
    mp: "percent_of_limit mu (memory_limits_map lk pod) = Inr mp"
    and mp_none: "memory_limits_map lk pod = None \<longrightarrow> mp = None"
    and mp_le: "\<forall>l. memory_limits_map lk pod = Some l \<and> l \<le> 0 \<longrightarrow> mp = None"
    and mp_pos: "\<forall>l. memory_limits_map lk pod = Some l \<and> 0 < l \<longrightarrow> mp = Some (mu / l * 100)"
    by (elim exE conjE)
  from pod_usage_Inr [OF cp [unfolded cu_def] mp [unfolded mu_def], of rnd ns]
  obtain u al where u: "pod_usage rnd ns lk (pod, d) = Inr (u, al)"
    and cpu: "cpu_usage_percent u = round_if_truthy rnd cp 1"
    and mem: "memory_usage_percent u = round_if_truthy rnd mp 1"
    by (elim exE conjE)
  have "cpu_limits_map lk pod = None \<longrightarrow> cpu_usage_percent u = None"
    using cp_none by (simp add: cpu round_if_truthy_def)
  moreover have "\<forall>l. cpu_limits_map lk pod = Some l \<and> l \<le> 0 \<longrightarrow> cpu_usage_percent u = None"
    using cp_le by (simp add: cpu round_if_truthy_def)
  moreover have "\<forall>l c. cpu_limits_map lk pod = Some l \<and> 0 < l \<and> cpu_usage d = Some c \<and> c \<noteq> 0
            \<longrightarrow> (\<exists>p. cpu_usage_percent u = Some p
                   \<and> (\<exists>k::int. p = of_int k / 10)
                   \<and> \<bar>p - c / l * 100\<bar> \<le> 1/20)"
  proof (intro allI impI, elim conjE)
    fix l c
    assume l: "cpu_limits_map lk pod = Some l" "0 < l" and c: "cpu_usage d = Some c" "c \<noteq> 0"
    from cp_pos l have "cp = Some (c / l * 100)" by (simp add: cu_def c)
    moreover have "c / l * 100 \<noteq> 0" using l c by simp
    ultimately have "cpu_usage_percent u = Some (rnd (c / l * 100) 1)"
      by (simp add: cpu round_if_truthy_def)
    with tenth [of "c / l * 100"]
    show "\<exists>p. cpu_usage_percent u = Some p \<and> (\<exists>k::int. p = of_int k / 10)
               \<and> \<bar>p - c / l * 100\<bar> \<le> 1/20"
      by (intro exI [of _ "rnd (c / l * 100) 1"]) simp
  qed
  moreover have "memory_limits_map lk pod = None \<longrightarrow> memory_usage_percent u = None"
    using mp_none by (simp add: mem round_if_truthy_def)
  moreover have "\<forall>l. memory_limits_map lk pod = Some l \<and> l \<le> 0 \<longrightarrow> memory_usage_percent u = None"
    using mp_le by (simp add: mem round_if_truthy_def)
  moreover have "\<forall>l m. memory_limits_map lk pod = Some l \<and> 0 < l \<and> memory_usage d = Some m \<and> m \<noteq> 0
            \<longrightarrow> (\<exists>p. memory_usage_percent u = Some p
                   \<and> (\<exists>k::int. p = of_int k / 10)
                   \<and> \<bar>p - real_of_int m / l * 100\<bar> \<le> 1/20)"
  proof (intro allI impI, elim conjE)
    fix l m
    assume l: "memory_limits_map lk pod = Some l" "0 < l"
      and m: "memory_usage d = Some m" "m \<noteq> 0"
    from mp_pos l have "mp = Some (real_of_int m / l * 100)" by (simp add: mu_def m)
    moreover have "real_of_int m / l * 100 \<noteq> 0" using l m by simp
    ultimately have "memory_usage_percent u = Some (rnd (real_of_int m / l * 100) 1)"
      by (simp add: mem round_if_truthy_def)
    with tenth [of "real_of_int m / l * 100"]
    show "\<exists>p. memory_usage_percent u = Some p \<and> (\<exists>k::int. p = of_int k / 10)
               \<and> \<bar>p - real_of_int m / l * 100\<bar> \<le> 1/20"
      by (intro exI [of _ "rnd (real_of_int m / l * 100) 1"]) simp
  qed
  ultimately show ?thesis using u
    by (intro exI [of _ u] exI [of _ al] conjI) assumption+
qed

theorem percent_of_limit_by_design_witness:
  "rounds_to_nearest nearest_even
   \<and> (\<exists>u al. pod_usage nearest_even ''prod'' (example_limits 2 4194304)
             (''api-0'', \<lparr>cpu_usage = Some (1/2), memory_usage = Some 1048576\<rparr>) = Inr (u, al)
          \<and> cpu_usage_percent u = Some 25
          \<and> memory_usage_percent u = Some 25)"
proof -
  from percent_of_limit_by_design [OF nearest_even_rounds_to_nearest,
         of "''prod''" "example_limits 2 4194304" "''api-0''"
         "\<lparr>cpu_usage = Some (1/2), memory_usage = Some 1048576\<rparr>"]
  obtain u al where
    u: "pod_usage nearest_even ''prod'' (example_limits 2 4194304)
          (''api-0'', \<lparr>cpu_usage = Some (1/2), memory_usage = Some 1048576\<rparr>) = Inr (u, al)"
    by (elim exE conjE)
  from u have "cpu_usage_percent u = Some 25" "memory_usage_percent u = Some 25"
    by (auto simp add: usage_defs Let_def)
  with u nearest_even_rounds_to_nearest show ?thesis
    by (intro conjI exI [of _ u] exI [of _ al]) assumption+
qed

section \<open>Properties of get_resource_trends\<close>

lemma variance_nonneg: "0 \<le> variance xs"
proof -
  have "0 \<le> sum_list (map (\<lambda>x. (x - mean xs)\<^sup>2) xs)"
    by (rule sum_list_nonneg) auto
  then show ?thesis by (simp add: variance_def mean_def)
qed

lemma std_nonneg: "0 \<le> std xs"
  by (simp add: std_def variance_nonneg)

lemma cv_iff: "(1/2 < std vs / mean vs) = (1/2 < coefficient_of_variation vs)"
proof (cases "0 < mean vs")
  case True
  then show ?thesis by (simp add: coefficient_of_variation_def)
next
  case False
  then have "std vs / mean vs \<le> 0"
    using std_nonneg [of vs] by (simp add: divide_nonneg_nonpos)
  then have lhs: "\<not> 1/2 < std vs / mean vs" by linarith
  have "coefficient_of_variation vs = 0"
    using False by (simp add: coefficient_of_variation_def)
  then have "\<not> 1/2 < coefficient_of_variation vs" by simp
  with lhs show ?thesis by blast
qed

lemma last_quarter_drop:
  assumes "vs \<noteq> []"
  shows "slice_from ((- int (length vs)) div 4) vs = drop (length vs - (length vs + 3) div 4) vs"
proof -
  have n: "0 < length vs" using assms by simp
  then have neg: "(- int (length vs)) div 4 < 0" by linarith
  have "nat (int (length vs) + (- int (length vs)) div 4) = length vs - (length vs + 3) div 4"
    using n by linarith
  with neg show ?thesis by (simp add: slice_from_def)
qed

lemma first_quarter_take:
  "slice_to (int (length vs) div 4) vs = take (length vs div 4) vs"
proof -
  have "nat (int (length vs) div 4) = length vs div 4" by linarith
  moreover have "0 \<le> int (length vs) div 4" by linarith
  ultimately show ?thesis by (simp add: slice_to_def)
qed

lemma change_percent_quarters:
  assumes "4 \<le> length vs"
  shows "change_percent vs =
     (let f = mean (take (length vs div 4) vs);
          l = mean (drop (length vs - (length vs + 3) div 4) vs)
      in if f = 0 then (if l = 0 then Some 0 else Some 100) else Some ((l - f) / f * 100))"
proof -
  have ne: "vs \<noteq> []" using assms by auto
  have a: "take (length vs div 4) vs \<noteq> []" using assms by auto
  have "length vs - (length vs + 3) div 4 < length vs" using assms by linarith
  then have b: "drop (length vs - (length vs + 3) div 4) vs \<noteq> []" by simp
  show ?thesis
    using a b
    by (simp add: change_percent_def first_quarter_def last_quarter_def np_mean_def
        first_quarter_take last_quarter_drop [OF ne] Let_def)
qed

lemma spike_test:
  assumes "0 \<le> v"
  shows "(m + 2 * sqrt v < x) = (m < x \<and> 4 * v < (x - m)\<^sup>2)"
proof
  assume h: "m + 2 * sqrt v < x"
  have s: "0 \<le> sqrt v" using assms by simp
  with h have mx: "m < x" by linarith
  from h have "2 * sqrt v < x - m" by linarith
  moreover have "0 \<le> 2 * sqrt v" using s by simp
  ultimately have "(2 * sqrt v)\<^sup>2 < (x - m)\<^sup>2"
    by (rule power_strict_mono [where n = 2, simplified] | simp add: power_strict_mono)+
  then have "4 * v < (x - m)\<^sup>2" using assms by (simp add: power_mult_distrib)
  with mx show "m < x \<and> 4 * v < (x - m)\<^sup>2" by simp
next
  assume h: "m < x \<and> 4 * v < (x - m)\<^sup>2"
  then have "(2 * sqrt v)\<^sup>2 < (x - m)\<^sup>2" using assms by (simp add: power_mult_distrib)
  moreover have "0 \<le> x - m" using h by simp
  ultimately have "2 * sqrt v < x - m"
    using power2_less_imp_less by blast
  then show "m + 2 * sqrt v < x" by linarith
qed

lemma indexed_filter_map:
  "map (\<lambda>i. f (xs ! i)) (filter (\<lambda>i. P (xs ! i)) [0..<length xs]) = map f (filter P xs)"
proof (induction xs rule: rev_induct)
  case Nil
  show ?case by simp
next
  case (snoc x xs)
  have A: "filter (\<lambda>i. P ((xs @ [x]) ! i)) [0..<length xs]
           = filter (\<lambda>i. P (xs ! i)) [0..<length xs]"
    by (rule filter_cong) (auto simp add: nth_append)
  have B: "map (\<lambda>i. f ((xs @ [x]) ! i)) (filter (\<lambda>i. P (xs ! i)) [0..<length xs])
           = map (\<lambda>i. f (xs ! i)) (filter (\<lambda>i. P (xs ! i)) [0..<length xs])"
    by (rule map_cong) (auto simp add: nth_append)
  from snoc A B show ?case by (simp add: nth_append)
qed


lemma trend_envelope_timed:
  "metadata (trend_envelope rnd clk ns dep mt per unit_text results) ''execution_time_ms''
   \<noteq> None"
  by (simp add: trend_envelope_def ToolResponse_partial_def ToolResponse_success_def
      or_empty_dict_def add_execution_metadata_def Let_def)

lemma trends_fetch:
  assumes "trend_query ns dep mt = Some (q, unit_text)"
      and "parse_duration per = Inr secs"
      and "minus_seconds (now_utc clk) secs = Inr start"
      and "query_range prom q start (now_utc clk) = Inr results"
  shows "get_resource_trends rnd prom clk ns dep mt per
         = Inr (trend_envelope rnd clk ns dep mt per unit_text results)"
  using assms trend_envelope_timed [of rnd clk ns dep mt per unit_text results]
  by (auto simp add: get_resource_trends_def get_resource_trends_body_def tool_handler_def)

lemma trend_envelope_short:
  assumes "vs = (case results of [] \<Rightarrow> [] | series # others \<Rightarrow> values_of (series_samples series))"
      and "length vs < 2"
  shows "status (trend_envelope rnd clk ns dep mt per unit_text results) = PARTIAL"
    and "warnings (trend_envelope rnd clk ns dep mt per unit_text results) \<noteq> []"
    and "result (trend_envelope rnd clk ns dep mt per unit_text results)
           = Some \<lparr>trend = None, interpretation_text = ''No data available for the specified period.''\<rparr>
         \<or> result (trend_envelope rnd clk ns dep mt per unit_text results)
           = Some \<lparr>trend = None,
                   interpretation_text = ''Insufficient data points for trend analysis.''\<rparr>"
  using assms
  by (auto simp add: trend_envelope_def ToolResponse_partial_def Let_def split: list.splits)

lemma trend_envelope_long:
  assumes "vs = (case results of [] \<Rightarrow> [] | series # others \<Rightarrow> values_of (series_samples series))"
      and "2 \<le> length vs"
  shows "status (trend_envelope rnd clk ns dep mt per unit_text results) = SUCCESS"
    and "map_option trend (result (trend_envelope rnd clk ns dep mt per unit_text results))
         = Some (Some (trend_of rnd ns dep mt per unit_text vs
                         (timestamps_of (series_samples (hd results)))))"
proof -
  from assms obtain series others where r: "results = series # others"
    by (cases results) auto
  with assms have vs: "vs = values_of (series_samples series)" by simp
  with assms(2) have ne: "series_samples series \<noteq> []" by auto
  show "status (trend_envelope rnd clk ns dep mt per unit_text results) = SUCCESS"
    using assms(2) ne
    by (simp add: trend_envelope_def r vs [symmetric] ToolResponse_success_def Let_def)
  show "map_option trend (result (trend_envelope rnd clk ns dep mt per unit_text results))
         = Some (Some (trend_of rnd ns dep mt per unit_text vs
                         (timestamps_of (series_samples (hd results)))))"
    using assms(2) ne
    by (simp add: trend_envelope_def r vs [symmetric] ToolResponse_success_def Let_def)
qed

lemma classify_trend_cases:
  "(1/2 < std vs / mean vs \<longrightarrow> classify_trend vs = VOLATILE)
   \<and> (\<not> 1/2 < std vs / mean vs \<longrightarrow>
        (\<forall>c. change_percent vs = Some c \<longrightarrow>
           (\<bar>c\<bar> < 10 \<longrightarrow> classify_trend vs = STABLE)
           \<and> (10 \<le> c \<longrightarrow> classify_trend vs = INCREASING)
           \<and> (c \<le> - 10 \<longrightarrow> classify_trend vs = DECREASING)))"
proof (cases "1/2 < std vs / mean vs")
  case True
  then have "1/2 < coefficient_of_variation vs" using cv_iff [of vs] by fast
  then have "classify_trend vs = VOLATILE" by (simp add: classify_trend_def)
  with True show ?thesis by (intro conjI impI) (assumption, erule notE, assumption)
next
  case False
  then have "\<not> 1/2 < coefficient_of_variation vs" using cv_iff [of vs] by fast
  then have c: "classify_trend vs = direction_of_change (change_percent vs)"
    by (simp add: classify_trend_def)
  have "(\<bar>c\<bar> < 10 \<longrightarrow> direction_of_change (Some c) = STABLE)
        \<and> (10 \<le> c \<longrightarrow> direction_of_change (Some c) = INCREASING)
        \<and> (c \<le> - 10 \<longrightarrow> direction_of_change (Some c) = DECREASING)" for c :: real
    by (auto simp add: direction_of_change_def)
  then have "\<forall>c. change_percent vs = Some c \<longrightarrow>
           (\<bar>c\<bar> < 10 \<longrightarrow> classify_trend vs = STABLE)
           \<and> (10 \<le> c \<longrightarrow> classify_trend vs = INCREASING)
           \<and> (c \<le> - 10 \<longrightarrow> classify_trend vs = DECREASING)"
    by (simp only: c) metis
  with False show ?thesis by (intro conjI impI) (erule notE, assumption, assumption)
qed

lemma spike_threshold_test:
  "(spike_threshold vs < x) = (mean vs < x \<and> 4 * variance vs < (x - mean vs)\<^sup>2)"
  unfolding spike_threshold_def std_def by (rule spike_test [OF variance_nonneg])

lemma spiky_values: "values_of spiky_samples = replicate 45 0 @ replicate 11 100"
  by (simp add: spiky_samples_def numeral_eq_Suc)

lemma spiky_mean: "mean (values_of spiky_samples) = 275/14"
  by (simp add: spiky_values mean_def sum_list_replicate)

lemma spiky_variance: "variance (values_of spiky_samples) = 309375/196"
  by (simp add: variance_def spiky_mean)
     (simp add: spiky_values mean_def sum_list_replicate power2_eq_square)

lemma spiky_thr: "spike_threshold (values_of spiky_samples) < 100"
  "\<not> spike_threshold (values_of spiky_samples) < 0"
  by (simp_all add: spike_threshold_test spiky_mean spiky_variance power2_eq_square)

lemma outlier_thr: "spike_threshold (values_of outlier_samples) < 100"
  "\<not> spike_threshold (values_of outlier_samples) < 0"
  by (simp_all add: spike_threshold_test outlier_samples_def mean_def variance_def power2_eq_square)

lemma gap_thr: "spike_threshold (values_of gap_samples) < 100"
  "\<not> spike_threshold (values_of gap_samples) < 0"
  by (simp_all add: spike_threshold_test gap_samples_def mean_def variance_def power2_eq_square)

lemma rising_cv: "\<not> 1/2 < std (values_of rising_samples) / mean (values_of rising_samples)"
proof -
  have m: "mean (values_of rising_samples) = 15" by (simp add: rising_samples_def mean_def)
  have "variance (values_of rising_samples) = 5\<^sup>2"
    by (simp add: variance_def m) (simp add: rising_samples_def mean_def)
  then have "std (values_of rising_samples) = 5" by (simp add: std_def)
  with m show ?thesis by simp
qed

lemma rising_change: "change_percent (values_of rising_samples) = Some 100"
  by (simp add: change_percent_def first_quarter_def last_quarter_def np_mean_def
      rising_samples_def slice_to_def slice_from_def mean_def)

lemma example_trend_query:
  "trend_query ''prod'' None ''cpu''
   = Some (''sum(rate(container_cpu_usage_seconds_total{'' @ trend_selector ''prod'' None
           @ ''}[5m]))'', ''cores'')"
  by (simp add: trend_query_def)

lemma example_start: "minus_seconds (now_utc example_clock) 86400 = Inr 3600000002"
  by (simp add: minus_seconds_def example_clock_def datetime_max_def)

lemma example_query_range:
  "query_range (example_prom samples) q s e = Inr [\<lparr>series_samples = samples\<rparr>]"
  by (simp add: example_prom_def)

text \<open>
  With the range query answered, let the values be the samples of the first series that
  are not NaN. With fewer than 2 values the tool returns a partial envelope with a
  warning, no trend and an explanatory message. Otherwise it returns a trend whose
  direction is volatile whenever stddev/mean exceeds 0.5, and else, where the change
  between the quarter means is a number, follows it: stable for |change| < 10,
  increasing for a change of 10 or more, decreasing for a change of -10 or less. From
  four values on the change is (last - first) / first * 100 for the means of the first
  and the last quarter of the values (0 or 100 when the first mean is 0).
\<close>

lemma trend_classification_of_defined_change:
  assumes "trend_query ns dep mt = Some (q, unit_text)"
      and "parse_duration per = Inr secs"
      and "minus_seconds (now_utc clk) secs = Inr start"
      and "query_range prom q start (now_utc clk) = Inr results"
      and "vs = (case results of [] \<Rightarrow> [] | series # others \<Rightarrow> values_of (series_samples series))"
      and "R = trend_envelope rnd clk ns dep mt per unit_text results"
  shows "get_resource_trends rnd prom clk ns dep mt per = Inr R"
    and "(length vs < 2 \<longrightarrow>
            status R = PARTIAL \<and> warnings R \<noteq> []
            \<and> (result R = Some \<lparr>trend = None,
                   interpretation_text = ''No data available for the specified period.''\<rparr>
               \<or> result R = Some \<lparr>trend = None,
                   interpretation_text = ''Insufficient data points for trend analysis.''\<rparr>))
       \<and> (2 \<le> length vs \<longrightarrow>
            (\<exists>t. status R = SUCCESS \<and> map_option trend (result R) = Some (Some t)
               \<and> (1/2 < std vs / mean vs \<longrightarrow> trend_direction t = VOLATILE)
               \<and> (\<not> 1/2 < std vs / mean vs \<longrightarrow>
                    (\<forall>c. change_percent vs = Some c \<longrightarrow>
                       (\<bar>c\<bar> < 10 \<longrightarrow> trend_direction t = STABLE)
                       \<and> (10 \<le> c \<longrightarrow> trend_direction t = INCREASING)
                       \<and> (c \<le> - 10 \<longrightarrow> trend_direction t = DECREASING)))))
       \<and> (4 \<le> length vs \<longrightarrow>
            change_percent vs =
              (let f = mean (take (length vs div 4) vs);
                   l = mean (drop (length vs - (length vs + 3) div 4) vs)
               in if f = 0 then (if l = 0 then Some 0 else Some 100)
                  else Some ((l - f) / f * 100)))"
proof -
  show "get_resource_trends rnd prom clk ns dep mt per = Inr R"
    using trends_fetch [OF assms(1-4)] by (simp add: assms(6))
  have short: "length vs < 2 \<longrightarrow>
            status R = PARTIAL \<and> warnings R \<noteq> []
            \<and> (result R = Some \<lparr>trend = None,
                   interpretation_text = ''No data available for the specified period.''\<rparr>
               \<or> result R = Some \<lparr>trend = None,
                   interpretation_text = ''Insufficient data points for trend analysis.''\<rparr>)"
    using trend_envelope_short [OF assms(5), of rnd clk ns dep mt per unit_text]
    by (simp add: assms(6))
  have long: "2 \<le> length vs \<longrightarrow>
            (\<exists>t. status R = SUCCESS \<and> map_option trend (result R) = Some (Some t)
               \<and> (1/2 < std vs / mean vs \<longrightarrow> trend_direction t = VOLATILE)
               \<and> (\<not> 1/2 < std vs / mean vs \<longrightarrow>
                    (\<forall>c. change_percent vs = Some c \<longrightarrow>
                       (\<bar>c\<bar> < 10 \<longrightarrow> trend_direction t = STABLE)
                       \<and> (10 \<le> c \<longrightarrow> trend_direction t = INCREASING)
                       \<and> (c \<le> - 10 \<longrightarrow> trend_direction t = DECREASING))))"
  proof
    assume len: "2 \<le> length vs"
    define t where "t = trend_of rnd ns dep mt per unit_text vs
                          (timestamps_of (series_samples (hd results)))"
    have td: "trend_direction t = classify_trend vs"
      by (simp add: t_def trend_of_def)
    from trend_envelope_long [OF assms(5) len, of rnd clk ns dep mt per unit_text]
    have "status R = SUCCESS" "map_option trend (result R) = Some (Some t)"
      by (simp_all add: assms(6) t_def)
    then have s1: "status R = SUCCESS" and s2: "map_option trend (result R) = Some (Some t)"
      by simp_all
    from classify_trend_cases [of vs]
    have c: "(1/2 < std vs / mean vs \<longrightarrow> trend_direction t = VOLATILE)
             \<and> (\<not> 1/2 < std vs / mean vs \<longrightarrow>
                  (\<forall>c. change_percent vs = Some c \<longrightarrow>
                     (\<bar>c\<bar> < 10 \<longrightarrow> trend_direction t = STABLE)
                     \<and> (10 \<le> c \<longrightarrow> trend_direction t = INCREASING)
                     \<and> (c \<le> - 10 \<longrightarrow> trend_direction t = DECREASING)))"
      by (simp only: td)
    show "\<exists>t. status R = SUCCESS
               \<and> map_option trend (result R) = Some (Some t)
               \<and> (1/2 < std vs / mean vs \<longrightarrow> trend_direction t = VOLATILE)
               \<and> (\<not> 1/2 < std vs / mean vs \<longrightarrow>
                    (\<forall>c. change_percent vs = Some c \<longrightarrow>
                       (\<bar>c\<bar> < 10 \<longrightarrow> trend_direction t = STABLE)
                       \<and> (10 \<le> c \<longrightarrow> trend_direction t = INCREASING)
                       \<and> (c \<le> - 10 \<longrightarrow> trend_direction t = DECREASING)))"
      using s1 s2 c [THEN conjunct1] c [THEN conjunct2]
      by (intro exI [of _ t] conjI) assumption+
  qed
  from short long change_percent_quarters [of vs]
  show "(length vs < 2 \<longrightarrow>
            status R = PARTIAL \<and> warnings R \<noteq> []
            \<and> (result R = Some \<lparr>trend = None,
                   interpretation_text = ''No data available for the specified period.''\<rparr>
               \<or> result R = Some \<lparr>trend = None,
                   interpretation_text = ''Insufficient data points for trend analysis.''\<rparr>))
       \<and> (2 \<le> length vs \<longrightarrow>
            (\<exists>t. status R = SUCCESS \<and> map_option trend (result R) = Some (Some t)
               \<and> (1/2 < std vs / mean vs \<longrightarrow> trend_direction t = VOLATILE)
               \<and> (\<not> 1/2 < std vs / mean vs \<longrightarrow>
                    (\<forall>c. change_percent vs = Some c \<longrightarrow>
                       (\<bar>c\<bar> < 10 \<longrightarrow> trend_direction t = STABLE)
                       \<and> (10 \<le> c \<longrightarrow> trend_direction t = INCREASING)
                       \<and> (c \<le> - 10 \<longrightarrow> trend_direction t = DECREASING)))))
       \<and> (4 \<le> length vs \<longrightarrow>
            change_percent vs =
              (let f = mean (take (length vs div 4) vs);
                   l = mean (drop (length vs - (length vs + 3) div 4) vs)
               in if f = 0 then (if l = 0 then Some 0 else Some 100)
                  else Some ((l - f) / f * 100)))"
    by blast
qed

text \<open>
  For two or three values the first quarter \<^verbatim>\<open>values[: n // 4]\<close> is empty, its mean
  is NaN and so is the change; both comparisons of the change are then false, and the
  direction is decreasing whenever it is not volatile, whatever the values are.
\<close>

lemma short_series_change_nan:
  assumes "length vs < 4"
  shows "change_percent vs = None"
proof -
  have "int (length vs) div 4 = 0" using assms by simp
  then have "first_quarter vs = None"
    by (simp add: first_quarter_def slice_to_def np_mean_def)
  then show ?thesis by (simp add: change_percent_def)
qed

lemma short_series_decreasing:
  assumes "length vs < 4" "\<not> 1/2 < coefficient_of_variation vs"
  shows "classify_trend vs = DECREASING"
  using assms short_series_change_nan [OF assms(1)]
  by (simp add: classify_trend_def direction_of_change_def)

lemma flat_pair_values: "values_of flat_pair_samples = [1, 1]"
  by (simp add: flat_pair_samples_def)

lemma flat_pair_cv: "coefficient_of_variation [1, 1] = 0"
  by (simp add: coefficient_of_variation_def std_def variance_def mean_def)

lemma flat_pair_fetch:
  "get_resource_trends rnd (example_prom flat_pair_samples) example_clock ''prod'' None
     ''cpu'' ''24h''
   = Inr (trend_envelope rnd example_clock ''prod'' None ''cpu'' ''24h'' ''cores''
            [\<lparr>series_samples = flat_pair_samples\<rparr>])"
  by (rule trends_fetch [OF example_trend_query parse_duration_24h example_start
                            example_query_range])

text \<open>
  C6 does not hold of the code. Two samples, both 1.0: the coefficient of variation is 0
  and the series does not change, so by the claim the direction is stable. The tool
  returns a trend with direction decreasing and a change that is NaN.
\<close>

theorem flat_pair_classified_decreasing:
  "map_option (map_option trend_direction \<circ> trend)
     (returned_result (get_resource_trends rnd (example_prom flat_pair_samples)
                         example_clock ''prod'' None ''cpu'' ''24h''))
   = Some (Some DECREASING)
   \<and> map_option (map_option trend_change_percent \<circ> trend)
     (returned_result (get_resource_trends rnd (example_prom flat_pair_samples)
                         example_clock ''prod'' None ''cpu'' ''24h''))
   = Some (Some None)
   \<and> values_of flat_pair_samples = [1, 1]
   \<and> coefficient_of_variation (values_of flat_pair_samples) = 0"
proof -
  have v: "values_of flat_pair_samples =
             (case [\<lparr>series_samples = flat_pair_samples\<rparr>] of
                [] \<Rightarrow> []
              | series # others \<Rightarrow> values_of (series_samples series))"
    by simp
  have len: "2 \<le> length (values_of flat_pair_samples)" by (simp add: flat_pair_values)
  have short: "length (values_of flat_pair_samples) < 4" by (simp add: flat_pair_values)
  have cv: "\<not> 1/2 < coefficient_of_variation (values_of flat_pair_samples)"
    by (simp add: flat_pair_values flat_pair_cv)
  have "map_option trend
          (returned_result (get_resource_trends rnd (example_prom flat_pair_samples)
                              example_clock ''prod'' None ''cpu'' ''24h''))
        = Some (Some (trend_of rnd ''prod'' None ''cpu'' ''24h'' ''cores''
                        (values_of flat_pair_samples) (timestamps_of flat_pair_samples)))"
    using trend_envelope_long(2) [OF v len, of rnd example_clock "''prod''" None "''cpu''"
            "''24h''" "''cores''"]
    by (simp add: flat_pair_fetch returned_result_def)
  then obtain rep where
    r: "returned_result (get_resource_trends rnd (example_prom flat_pair_samples)
                           example_clock ''prod'' None ''cpu'' ''24h'') = Some rep"
    and t: "trend rep = Some (trend_of rnd ''prod'' None ''cpu'' ''24h'' ''cores''
                        (values_of flat_pair_samples) (timestamps_of flat_pair_samples))"
    by auto
  have d: "trend_direction (trend_of rnd ''prod'' None ''cpu'' ''24h'' ''cores''
             (values_of flat_pair_samples) (timestamps_of flat_pair_samples)) = DECREASING"
    using short_series_decreasing [OF short cv] by (simp add: trend_of_def)
  have c: "trend_change_percent (trend_of rnd ''prod'' None ''cpu'' ''24h'' ''cores''
             (values_of flat_pair_samples) (timestamps_of flat_pair_samples)) = None"
    using short_series_change_nan [OF short] by (simp add: trend_of_def)
  show ?thesis
    by (simp add: r t d c) (simp add: flat_pair_values flat_pair_cv)
qed

lemma values_of_no_nan:
  "list_all (\<lambda>s. snd s \<noteq> NaN) sm \<Longrightarrow> length (values_of sm) = length sm"
  by (induction sm rule: values_of.induct) simp_all

lemma indexed_zip_filter:
  assumes "length ts = length vs"
  shows "map (\<lambda>i. ts ! i) (filter (\<lambda>i. P (vs ! i)) [0..<length vs])
         = map fst (filter (\<lambda>p. P (snd p)) (zip ts vs))"
proof -
  have A: "filter (\<lambda>i. P (snd (zip ts vs ! i))) [0..<length (zip ts vs)]
           = filter (\<lambda>i. P (vs ! i)) [0..<length vs]"
    using assms by (intro filter_cong) auto
  have B: "map (\<lambda>i. fst (zip ts vs ! i)) (filter (\<lambda>i. P (vs ! i)) [0..<length vs])
           = map (\<lambda>i. ts ! i) (filter (\<lambda>i. P (vs ! i)) [0..<length vs])"
    using assms by (intro map_cong) auto
  have "map (\<lambda>i. ts ! i) (filter (\<lambda>i. P (vs ! i)) [0..<length vs])
        = map (\<lambda>i. fst (zip ts vs ! i)) (filter (\<lambda>i. P (vs ! i)) [0..<length vs])"
    by (rule B [symmetric])
  also have "\<dots> = map (\<lambda>i. fst (zip ts vs ! i))
                    (filter (\<lambda>i. P (snd (zip ts vs ! i))) [0..<length (zip ts vs)])"
    by (simp only: A)
  also have "\<dots> = map fst (filter (\<lambda>p. P (snd p)) (zip ts vs))"
    by (rule indexed_filter_map [of fst "zip ts vs" "\<lambda>p. P (snd p)"])
  finally show ?thesis .
qed

lemma length_filter_zip_snd:
  assumes "length ts = length vs"
  shows "length (filter (\<lambda>p. P (snd p)) (zip ts vs)) = length (filter P vs)"
proof -
  have "map snd (filter (\<lambda>p. P (snd p)) (zip ts vs)) = filter P (map snd (zip ts vs))"
    by (simp add: filter_map comp_def)
  also have "\<dots> = filter P vs" using assms by simp
  finally have "length (map snd (filter (\<lambda>p. P (snd p)) (zip ts vs))) = length (filter P vs)"
    by simp
  then show ?thesis by simp
qed

lemma spike_times_of_zip:
  assumes "length ts = length vs"
  shows "spike_times_of vs ts
         = map fst (filter (\<lambda>p. spike_threshold vs < snd p) (zip ts vs))"
proof -
  have "filter (\<lambda>i. i < length ts) (spike_indices vs) = spike_indices vs"
    unfolding spike_indices_def using assms by (intro filter_True) simp
  then have "spike_times_of vs ts = map (\<lambda>i. ts ! i) (spike_indices vs)"
    by (simp only: spike_times_of_def)
  also have "\<dots> = map fst (filter (\<lambda>p. spike_threshold vs < snd p) (zip ts vs))"
    unfolding spike_indices_def
    by (rule indexed_zip_filter [OF assms, of "\<lambda>v. spike_threshold vs < v"])
  finally show ?thesis .
qed

lemma single_filter:
  assumes "i < n" "Q i" "\<forall>j<n. j \<noteq> i \<longrightarrow> \<not> Q j"
  shows "filter Q [0..<n] = [i]"
proof -
  have split: "[0..<n] = [0..<i] @ i # [Suc i..<n]"
    using assms(1) by (metis le_add2 le_add_same_cancel2 upt_add_eq_append upt_conv_Cons
        le_Suc_ex less_imp_le_nat)
  have "filter Q [0..<i] = []" using assms by (auto simp add: filter_empty_conv)
  moreover have "filter Q [Suc i..<n] = []" using assms by (auto simp add: filter_empty_conv)
  ultimately show ?thesis using assms(2) by (simp add: split)
qed

lemma single_spike:
  assumes "length ts = length vs" "i < length vs" "spike_threshold vs < vs ! i"
      and "\<forall>j<length vs. j \<noteq> i \<longrightarrow> \<not> spike_threshold vs < vs ! j"
  shows "spike_times_of vs ts = [ts ! i]"
proof -
  have "spike_indices vs = [i]"
    unfolding spike_indices_def
    by (rule single_filter [where Q = "\<lambda>i. spike_threshold vs < vs ! i"]) (use assms in auto)
  then show ?thesis using assms(1,2) by (simp add: spike_times_of_def)
qed


lemma trend_spikes:
  "spike_count (trend_of rnd ns dep mt per unit_text vs ts) = length (spike_times_of vs ts)"
  "spike_times (trend_of rnd ns dep mt per unit_text vs ts) = take 10 (spike_times_of vs ts)"
  by (simp_all add: trend_of_def slice_to_def)

lemma spiky_spike_times:
  "spike_times_of (values_of spiky_samples) (timestamps_of spiky_samples)
   = [45, 46, 47, 48, 49, 50, 51, 52, 53, 54, 55]"
proof -
  have len: "length (timestamps_of spiky_samples) = length (values_of spiky_samples)"
    by (simp add: spiky_samples_def timestamps_of_def)
  show ?thesis
    unfolding spike_times_of_zip [OF len]
    using spiky_thr by (simp add: spiky_samples_def timestamps_of_def)
qed

lemma gap_spike_times:
  "spike_times_of (values_of gap_samples) (timestamps_of gap_samples) = [300]"
proof -
  have vs: "values_of gap_samples = [0, 0, 0, 0, 0, 100]" by (simp add: gap_samples_def)
  have "spike_indices (values_of gap_samples) = [5]"
    unfolding spike_indices_def
  proof (rule single_filter)
    show "5 < length (values_of gap_samples)" by (simp add: vs)
    show "spike_threshold (values_of gap_samples) < values_of gap_samples ! 5"
      using gap_thr(1) by (simp add: vs)
    show "\<forall>j<length (values_of gap_samples). j \<noteq> 5 \<longrightarrow>
            \<not> spike_threshold (values_of gap_samples) < values_of gap_samples ! j"
    proof (intro allI impI)
      fix j assume "j < length (values_of gap_samples)" "j \<noteq> 5"
      then have "j < 5" by (simp add: vs)
      then have "values_of gap_samples ! j = 0"
        by (auto simp add: vs less_Suc_eq numeral_eq_Suc)
      with gap_thr(2) show "\<not> spike_threshold (values_of gap_samples)
                              < values_of gap_samples ! j"
        by simp
    qed
  qed
  then show ?thesis
    by (simp add: spike_times_of_def) (simp add: gap_samples_def timestamps_of_def)
qed

text \<open>
  C4 as stated fails: \<^verbatim>\<open>spike_times[:10]\<close> keeps the first ten spike timestamps in
  the order of the series, not the ten most recent. Of eleven spikes at the seconds 45
  to 55 the report keeps 45 to 54 and drops 55, the most recent one.
\<close>

theorem oldest_spikes_reported_counterexample:
  "map_option (map_option spike_times \<circ> trend)
     (returned_result (get_resource_trends nearest_even (example_prom spiky_samples) example_clock
                ''prod'' None ''cpu'' ''24h''))
   = Some (Some [45, 46, 47, 48, 49, 50, 51, 52, 53, 54])
   \<and> map_option (map_option spike_count \<circ> trend)
     (returned_result (get_resource_trends nearest_even (example_prom spiky_samples) example_clock
                ''prod'' None ''cpu'' ''24h''))
   = Some (Some 11)
   \<and> last spiky_samples = (55, Num 100)
   \<and> spike_threshold (values_of spiky_samples) < 100"
proof -
  have v: "values_of spiky_samples =
             (case [\<lparr>series_samples = spiky_samples\<rparr>] of
                [] \<Rightarrow> []
              | series # others \<Rightarrow> values_of (series_samples series))"
    by simp
  have len: "2 \<le> length (values_of spiky_samples)" by (simp add: spiky_values)
  have "map_option trend
          (returned_result (get_resource_trends nearest_even (example_prom spiky_samples) example_clock
                     ''prod'' None ''cpu'' ''24h''))
        = Some (Some (trend_of nearest_even ''prod'' None ''cpu'' ''24h'' ''cores''
                        (values_of spiky_samples) (timestamps_of spiky_samples)))"
    using trend_envelope_long(2) [OF v len, of nearest_even example_clock "''prod''" None "''cpu''"
            "''24h''" "''cores''"]
    by (simp add: trends_fetch [OF example_trend_query parse_duration_24h example_start
                                   example_query_range] returned_result_def)
  then obtain rep where
    r: "returned_result (get_resource_trends nearest_even (example_prom spiky_samples) example_clock
                  ''prod'' None ''cpu'' ''24h'') = Some rep"
    and t: "trend rep = Some (trend_of nearest_even ''prod'' None ''cpu'' ''24h'' ''cores''
                        (values_of spiky_samples) (timestamps_of spiky_samples))"
    by auto
  show ?thesis
    using spiky_thr(1)
    by (simp add: r t trend_spikes spiky_spike_times) (simp add: spiky_samples_def)
qed

text \<open>
  Besides, \<^verbatim>\<open>values\<close> drops the NaN samples while \<^verbatim>\<open>timestamps\<close> keeps every
  sample, so after a NaN sample the index of a value no longer is the index of its
  timestamp: the outlier at second 360 is reported at second 300.
\<close>

lemma nan_shifts_spike_timestamp:
  "map_option (map_option spike_times \<circ> trend)
     (returned_result (get_resource_trends nearest_even (example_prom gap_samples) example_clock
                ''prod'' None ''cpu'' ''24h''))
   = Some (Some [300])
   \<and> last gap_samples = (360, Num 100)"
proof -
  have v: "values_of gap_samples =
             (case [\<lparr>series_samples = gap_samples\<rparr>] of
                [] \<Rightarrow> []
              | series # others \<Rightarrow> values_of (series_samples series))"
    by simp
  have len: "2 \<le> length (values_of gap_samples)" by (simp add: gap_samples_def)
  have "map_option trend
          (returned_result (get_resource_trends nearest_even (example_prom gap_samples) example_clock
                     ''prod'' None ''cpu'' ''24h''))
        = Some (Some (trend_of nearest_even ''prod'' None ''cpu'' ''24h'' ''cores''
                        (values_of gap_samples) (timestamps_of gap_samples)))"
    using trend_envelope_long(2) [OF v len, of nearest_even example_clock "''prod''" None "''cpu''"
            "''24h''" "''cores''"]
    by (simp add: trends_fetch [OF example_trend_query parse_duration_24h example_start
                                   example_query_range] returned_result_def)
  then obtain rep where
    r: "returned_result (get_resource_trends nearest_even (example_prom gap_samples) example_clock
                  ''prod'' None ''cpu'' ''24h'') = Some rep"
    and t: "trend rep = Some (trend_of nearest_even ''prod'' None ''cpu'' ''24h'' ''cores''
                        (values_of gap_samples) (timestamps_of gap_samples))"
    by auto
  show ?thesis
    by (simp add: r t trend_spikes gap_spike_times) (simp add: gap_samples_def)
qed

text \<open>
  C4, amended. In the resource-trend tool, for every sample series without NaN samples
  and with at least 2 points, spike_count equals the number of samples strictly exceeding
  mean + 2 * stddev, and spike_times reports at most 10 timestamps, which are the first 10
  spike timestamps in the order of the series; in particular a series with exactly one
  outlier above mean + 2 * stddev yields spike_count = 1 with that outlier's timestamp
  contained in spike_times.
\<close>

theorem spike_report_first_ten:
  assumes "trend_query ns dep mt = Some (q, unit_text)"
      and "parse_duration per = Inr secs"
      and "minus_seconds (now_utc clk) secs = Inr start"
      and "query_range prom q start (now_utc clk) = Inr (series # others)"
      and "sm = series_samples series"
      and "list_all (\<lambda>s. snd s \<noteq> NaN) sm"
      and "vs = values_of sm"
      and "2 \<le> length vs"
  shows "\<exists>env t. get_resource_trends rnd prom clk ns dep mt per = Inr env
           \<and> map_option trend (result env) = Some (Some t)
           \<and> spike_count t = length (filter (\<lambda>v. mean vs + 2 * std vs < v) vs)
           \<and> spike_times t =
               take 10 (map fst (filter (\<lambda>p. mean vs + 2 * std vs < snd p)
                                   (zip (map fst sm) vs)))
           \<and> length (spike_times t) \<le> 10
           \<and> (\<forall>i<length vs.
                 mean vs + 2 * std vs < vs ! i
                 \<and> (\<forall>j<length vs. j \<noteq> i \<longrightarrow> \<not> mean vs + 2 * std vs < vs ! j)
                 \<longrightarrow> spike_count t = 1 \<and> fst (sm ! i) \<in> set (spike_times t))"
proof -
  define ts where "ts = timestamps_of sm"
  define t where "t = trend_of rnd ns dep mt per unit_text vs ts"
  have len: "length ts = length vs"
    using values_of_no_nan [OF assms(6)] by (simp add: ts_def timestamps_of_def assms(7))
  have v: "vs = (case series # others of [] \<Rightarrow> []
                 | series # others \<Rightarrow> values_of (series_samples series))"
    by (simp add: assms(5,7))
  define env where "env = trend_envelope rnd clk ns dep mt per unit_text (series # others)"
  have ret: "get_resource_trends rnd prom clk ns dep mt per = Inr env"
    using trends_fetch [OF assms(1-4)] by (simp add: env_def)
  have tr: "map_option trend (result env) = Some (Some t)"
    using trend_envelope_long(2) [OF v assms(8), of rnd clk ns dep mt per unit_text]
    by (simp add: env_def t_def ts_def assms(5))
  have st: "spike_times_of vs ts
            = map fst (filter (\<lambda>p. mean vs + 2 * std vs < snd p) (zip (map fst sm) vs))"
    using spike_times_of_zip [OF len]
    by (simp add: spike_threshold_def ts_def timestamps_of_def)
  have cnt: "spike_count t = length (filter (\<lambda>v. mean vs + 2 * std vs < v) vs)"
  proof -
    have "length (map fst sm) = length vs"
      using len by (simp add: ts_def timestamps_of_def)
    from length_filter_zip_snd [OF this, of "\<lambda>v. mean vs + 2 * std vs < v"]
    show ?thesis by (simp add: t_def trend_spikes st)
  qed
  have tms: "spike_times t =
               take 10 (map fst (filter (\<lambda>p. mean vs + 2 * std vs < snd p)
                                   (zip (map fst sm) vs)))"
    by (simp add: t_def trend_spikes st)
  have le: "length (spike_times t) \<le> 10"
    by (simp add: t_def trend_spikes)
  have one: "\<forall>i<length vs.
                 mean vs + 2 * std vs < vs ! i
                 \<and> (\<forall>j<length vs. j \<noteq> i \<longrightarrow> \<not> mean vs + 2 * std vs < vs ! j)
                 \<longrightarrow> spike_count t = 1 \<and> fst (sm ! i) \<in> set (spike_times t)"
  proof (intro allI impI)
    fix i
    assume i: "i < length vs"
      and h: "mean vs + 2 * std vs < vs ! i
              \<and> (\<forall>j<length vs. j \<noteq> i \<longrightarrow> \<not> mean vs + 2 * std vs < vs ! j)"
    then have "spike_times_of vs ts = [ts ! i]"
      using single_spike [OF len i] by (simp add: spike_threshold_def)
    moreover have "ts ! i = fst (sm ! i)"
      using i len by (simp add: ts_def timestamps_of_def)
    ultimately show "spike_count t = 1 \<and> fst (sm ! i) \<in> set (spike_times t)"
      by (simp add: t_def trend_spikes)
  qed
  from ret tr cnt tms le one show ?thesis
    by (intro exI [of _ env] exI [of _ t] conjI) assumption+
qed

theorem spike_report_first_ten_witness:
  "outlier_samples ! 5 = (300, Num 100)
   \<and> (\<exists>env t. get_resource_trends nearest_even (example_prom outlier_samples) example_clock
                         ''prod'' None ''cpu'' ''24h'' = Inr env
          \<and> map_option trend (result env) = Some (Some t)
          \<and> spike_count t = 1
          \<and> 300 \<in> set (spike_times t))"
proof -
  have vs: "values_of outlier_samples = [0, 0, 0, 0, 0, 100]"
    by (simp add: outlier_samples_def)
  have nonan: "list_all (\<lambda>s. snd s \<noteq> NaN) outlier_samples"
    by (simp add: outlier_samples_def)
  have len: "2 \<le> length (values_of outlier_samples)" by (simp add: vs)
  have sm: "outlier_samples = series_samples \<lparr>series_samples = outlier_samples\<rparr>" by simp
  have at5: "outlier_samples ! 5 = (300, Num 100)" by (simp add: outlier_samples_def)
  have others: "\<forall>j<length (values_of outlier_samples). j \<noteq> 5 \<longrightarrow>
          \<not> mean (values_of outlier_samples) + 2 * std (values_of outlier_samples)
              < values_of outlier_samples ! j"
  proof (intro allI impI)
    fix j assume "j < length (values_of outlier_samples)" "j \<noteq> 5"
    then have "j < 5" by (simp add: vs)
    then have "values_of outlier_samples ! j = 0"
      by (auto simp add: vs less_Suc_eq numeral_eq_Suc)
    with outlier_thr(2)
    show "\<not> mean (values_of outlier_samples) + 2 * std (values_of outlier_samples)
            < values_of outlier_samples ! j"
      by (simp add: spike_threshold_def)
  qed
  have spike: "mean (values_of outlier_samples) + 2 * std (values_of outlier_samples)
                 < values_of outlier_samples ! 5"
    using outlier_thr(1) by (simp add: spike_threshold_def vs)
  from spike_report_first_ten
         [OF example_trend_query parse_duration_24h example_start example_query_range
             sm nonan refl len, of nearest_even]
  obtain env t where
    ret: "get_resource_trends nearest_even (example_prom outlier_samples) example_clock
            ''prod'' None ''cpu'' ''24h'' = Inr env"
    and tr: "map_option trend (result env) = Some (Some t)"
    and one: "\<forall>i<length (values_of outlier_samples).
                 mean (values_of outlier_samples) + 2 * std (values_of outlier_samples)
                   < values_of outlier_samples ! i
                 \<and> (\<forall>j<length (values_of outlier_samples). j \<noteq> i \<longrightarrow>
                       \<not> mean (values_of outlier_samples) + 2 * std (values_of outlier_samples)
                           < values_of outlier_samples ! j)
                 \<longrightarrow> spike_count t = 1 \<and> fst (outlier_samples ! i) \<in> set (spike_times t)"
    by (elim exE conjE)
  have "5 < length (values_of outlier_samples)" by (simp add: vs)
  with one spike others
  have "spike_count t = 1 \<and> fst (outlier_samples ! 5) \<in> set (spike_times t)"
    by blast
  then have "spike_count t = 1" "300 \<in> set (spike_times t)"
    by (simp_all add: at5)
  with ret tr at5 show ?thesis by (intro conjI exI [of _ env] exI [of _ t])
qed

section \<open>Properties of get_recent_events\<close>
























section \<open>Properties of get_container_logs\<close>

lemma fetch_logs_timed:
  "fetch_logs k8s clk ns pod c max_lines tail since since_seconds previous = Inr r
   \<Longrightarrow> metadata r ''execution_time_ms'' \<noteq> None"
  by (auto simp add: fetch_logs_def add_execution_metadata_def Let_def
      split: sum.splits prod.splits)

lemma fetch_logs_report:
  assumes "get_pod_logs k8s ns pod c tail since_seconds previous = Inr fetched"
  shows "\<exists>r rep. fetch_logs k8s clk ns pod c max_lines tail since since_seconds previous = Inr r
           \<and> result r = Some rep
           \<and> logs_container_name rep = c \<and> logs_pod_name rep = pod
           \<and> logs_text rep = fst (truncate_logs fetched max_lines)
           \<and> status r \<noteq> ERROR"
  using assms by (simp add: fetch_logs_def Let_def split: prod.splits)

text \<open>
  With no container name given and exactly one container in the pod, the name of that
  container is used and the logs the cluster returns for it are reported.
\<close>

lemma single_container_resolved:
  assumes "k8s_load_config k8s = None"
      and "\<not> truthy container_name"
      and "since_seconds_of since = Inr since_seconds"
      and "get_pod k8s ns pod = Inr p"
      and "spec_containers p = [c]"
      and "get_pod_logs k8s ns pod c
             (min tail_lines (min tail_lines (max_log_lines settings * 5)))
             since_seconds previous = Inr fetched"
  shows "\<exists>env rep. get_container_logs k8s settings clk ns pod container_name tail_lines since
                      previous = Inr env
           \<and> result env = Some rep
           \<and> logs_container_name rep = c \<and> logs_pod_name rep = pod
           \<and> logs_text rep
               = fst (truncate_logs fetched (min tail_lines (max_log_lines settings * 5)))
           \<and> status env \<noteq> ERROR"
proof -
  define max_lines where "max_lines = min tail_lines (max_log_lines settings * 5)"
  from fetch_logs_report [OF assms(6), of clk max_lines since]
  obtain r rep where
    r: "fetch_logs k8s clk ns pod c max_lines
          (min tail_lines (min tail_lines (max_log_lines settings * 5))) since since_seconds
          previous = Inr r"
    and rep: "result r = Some rep" "logs_container_name rep = c" "logs_pod_name rep = pod"
      "logs_text rep = fst (truncate_logs fetched max_lines)" "status r \<noteq> ERROR"
    by (elim exE conjE)
  have body: "get_container_logs_body k8s settings clk ns pod container_name tail_lines since
                previous = Inr r"
    using assms(1-5) r
    by (simp add: get_container_logs_body_def Let_def max_lines_def)
  from tool_handler_keeps_result [of "wrapper_start clk" "wrapper_end clk" r]
  obtain env where
    env: "tool_handler (wrapper_start clk) (wrapper_end clk) (Inr r) = Inr env"
    and same: "result env = result r" "status env = status r"
    by (elim exE conjE)
  have "get_container_logs k8s settings clk ns pod container_name tail_lines since previous
        = Inr env"
    by (simp add: get_container_logs_def body env)
  with rep same show ?thesis
    unfolding max_lines_def by (intro exI [of _ env] exI [of _ rep] conjI) simp_all
qed

text \<open>
  C9 does not hold of the code where the pod has more than one container. With no
  container name given, the body then calls \<^verbatim>\<open>ToolResponse.error\<close>, which raises
  \<^verbatim>\<open>AttributeError: error\<close>; the handler catches it in its clause for
  \<^verbatim>\<open>Exception\<close>, where it calls \<^verbatim>\<open>ToolResponse.error\<close> again, and the
  \<^verbatim>\<open>AttributeError\<close> raised there leaves the call: no envelope of the kind
  \<^verbatim>\<open>MultipleContainersError\<close> is returned.
\<close>

theorem multiple_containers_raise_attribute_error:
  assumes "k8s_load_config k8s = None"
      and "\<not> truthy container_name"
      and "since_seconds_of since = Inr since_seconds"
      and "get_pod k8s ns pod = Inr p"
      and "1 < length (spec_containers p)"
  shows "get_container_logs k8s settings clk ns pod container_name tail_lines since previous
         = Inl (Exn (OtherException ''AttributeError'') ''error'')"
  using assms
  by (simp add: get_container_logs_def get_container_logs_body_def Let_def
      ToolResponse_error_def tool_handler_def)

theorem multiple_containers_raise_attribute_error_witness:
  "k8s_load_config logs_cluster = None
   \<and> \<not> truthy None
   \<and> since_seconds_of None = Inr None
   \<and> get_pod logs_cluster ''prod'' ''web-0'' = Inr flapping_pod
   \<and> spec_containers flapping_pod = [''web'', ''sidecar'', ''proxy'']
   \<and> get_container_logs logs_cluster (example_settings 50) example_clock ''prod'' ''web-0''
       None 100 None False
     = Inl (Exn (OtherException ''AttributeError'') ''error'')"
  using multiple_containers_raise_attribute_error
          [of logs_cluster None None None "''prod''" "''web-0''" flapping_pod
              "example_settings 50" example_clock 100 False]
  by (simp add: logs_cluster_def empty_cluster_def truthy_def since_seconds_of_def
      flapping_pod_def)

text \<open>The same call for the pod with one container returns its two lines of logs.\<close>

lemma single_container_example:
  "\<exists>env rep. get_container_logs logs_cluster (example_settings 50) example_clock ''prod''
               ''cart-0'' None 100 None False = Inr env
     \<and> result env = Some rep
     \<and> logs_container_name rep = ''cart''
     \<and> logs_text rep = ''started'' @ newline @ ''ready''"
proof -
  define fetched where "fetched = ''started'' @ newline @ ''ready''"
  have sp: "split_newline fetched = [''started'', ''ready'']"
    by (simp add: fetched_def newline_def)
  have tr: "truncate_logs fetched 100 = (fetched, False)"
    by (simp add: truncate_logs_def sp)
  have cfg: "k8s_load_config logs_cluster = None"
    by (simp add: logs_cluster_def empty_cluster_def)
  have nm: "\<not> truthy None" by (simp add: truthy_def)
  have sn: "since_seconds_of None = Inr None" by (simp add: since_seconds_of_def truthy_def)
  have pd: "get_pod logs_cluster ''prod'' ''cart-0'' = Inr running_pod"
    by (simp add: logs_cluster_def empty_cluster_def)
  have cs: "spec_containers running_pod = [''cart'']" by (simp add: running_pod_def)
  have lg: "get_pod_logs logs_cluster ''prod'' ''cart-0'' ''cart''
              (min 100 (min 100 (max_log_lines (example_settings 50) * 5))) None False
            = Inr fetched"
    by (simp add: logs_cluster_def empty_cluster_def fetched_def)
  have mx: "min 100 (max_log_lines (example_settings 50) * 5) = 100"
    by (simp add: example_settings_def)
  from single_container_resolved [OF cfg nm sn pd cs lg, of example_clock]
  have "\<exists>env rep. get_container_logs logs_cluster (example_settings 50) example_clock
                    ''prod'' ''cart-0'' None 100 None False = Inr env
          \<and> result env = Some rep
          \<and> logs_container_name rep = ''cart''
          \<and> logs_text rep = fetched"
    unfolding mx tr fst_conv by blast
  then show ?thesis by (simp add: fetched_def)
qed


end
